theory Spec2Isabelle
  imports Complex_Main
begin

section \<open>Python values, errors and the builtins the records call\<close>

text \<open>
  A Python float is a finite value, an infinity or NaN. The comparisons below are
  Python's: every ordering comparison with NaN is false.
\<close>

datatype pyfloat = Fin real | PInf | NInf | NaN

fun flt :: "pyfloat \<Rightarrow> real \<Rightarrow> bool" where
  "flt (Fin x) c = (x < c)"
| "flt NInf c = True"
| "flt PInf c = False"
| "flt NaN c = False"

fun fgt :: "pyfloat \<Rightarrow> real \<Rightarrow> bool" where
  "fgt (Fin x) c = (x > c)"
| "fgt PInf c = True"
| "fgt NInf c = False"
| "fgt NaN c = False"

text \<open>
  The values a record field can hold. A \<open>datetime\<close> is kept as its proleptic Gregorian
  ordinal (the day number, 1 for 0001-01-01); an \<open>OrderedDict\<close> and a \<open>dict\<close> are
  association lists in insertion order.
\<close>

datatype pyval =
    PNone
  | PStr string
  | PInt int
  | PFloat pyfloat
  | PBool bool
  | PDatetime int
  | PList "pyval list"
  | PDict "(string \<times> pyval) list"

datatype error =
    InvalidRecordProperty
  | InvalidRecordLength
  | IndexError
  | KeyError
  | TypeError
  | ValueError
  | OverflowError

text \<open>
  The parsers of the Python runtime are parameters of the model: \<open>py_int s\<close> is
  \<open>int(s)\<close> when that is a plain \<open>int\<close> (\<open>None\<close> where \<open>int\<close> raises or returns a
  \<open>long\<close>), \<open>py_float s\<close> is \<open>float(s)\<close>, \<open>py_strptime s fmt\<close> is
  \<open>datetime.strptime(s, fmt)\<close> (\<open>None\<close> where they raise), \<open>py_json\<close> is
  \<open>json.dumps\<close> and \<open>py_utcnow\<close> the clock.
\<close>

record builtins =
  py_int :: "string \<Rightarrow> int option"
  py_float :: "string \<Rightarrow> pyfloat option"
  py_strptime :: "string \<Rightarrow> string \<Rightarrow> int option"
  py_json :: "(string \<times> pyval) list \<Rightarrow> string"
  py_utcnow :: int

subsection \<open>Strings\<close>

definition lower_char :: "char \<Rightarrow> char" where
  "lower_char c =
     (let n = (of_char c :: nat) in if 65 \<le> n \<and> n \<le> 90 then char_of (n + 32) else c)"

definition lower :: "string \<Rightarrow> string" where
  "lower s = map lower_char s"

definition is_space :: "char \<Rightarrow> bool" where
  "is_space c = ((of_char c :: nat) \<in> {9, 10, 11, 12, 13, 32})"

definition strip :: "string \<Rightarrow> string" where
  "strip s = rev (dropWhile is_space (rev (dropWhile is_space s)))"

subsection \<open>Ordered dictionaries\<close>

fun dict_set :: "string \<Rightarrow> 'v \<Rightarrow> (string \<times> 'v) list \<Rightarrow> (string \<times> 'v) list" where
  "dict_set k v [] = [(k, v)]"
| "dict_set k v (p # ps) = (if fst p = k then (k, v) # ps else p # dict_set k v ps)"

section \<open>records/record.py\<close>

subsection \<open>Settings\<close>

definition DISABLE_SCHEMA_MATCH :: bool where
  "DISABLE_SCHEMA_MATCH = True"

definition STRFTIME_FORMAT :: string where
  "STRFTIME_FORMAT = ''%b %Y''"

subsection \<open>Schemas\<close>

text \<open>
  One entry of a cerberus schema. \<open>datetime_format\<close> is \<open>None\<close> when the entry has no
  such key and \<open>Some None\<close> when the key holds \<open>None\<close>; \<open>subschema\<close> is the nested
  \<open>schema\<close> rule of a \<open>dict\<close> field, each nested field with its type.
\<close>

record rule =
  rtype :: string
  nullable :: bool
  required :: bool
  datetime_format :: "string option option"
  subschema :: "(string \<times> string) list option"

definition mk_rule :: "string \<Rightarrow> bool \<Rightarrow> bool \<Rightarrow> rule" where
  "mk_rule t n r =
     \<lparr>rtype = t, nullable = n, required = r, datetime_format = None, subschema = None\<rparr>"

type_synonym schema = "(string \<times> rule) list"

type_synonym pydict = "(string \<times> pyval) list"

subsection \<open>The probes of \<open>Record\<close>\<close>

definition is_empty_str :: "pyval \<Rightarrow> bool" where
  "is_empty_str val = (case val of PStr s \<Rightarrow> strip s = [] | _ \<Rightarrow> False)"

definition isinstance_int :: "pyval \<Rightarrow> bool" where
  "isinstance_int val = (case val of PInt _ \<Rightarrow> True | PBool _ \<Rightarrow> True | _ \<Rightarrow> False)"

definition isinstance_float :: "pyval \<Rightarrow> bool" where
  "isinstance_float val = (case val of PFloat _ \<Rightarrow> True | _ \<Rightarrow> False)"

definition could_be_float :: "builtins \<Rightarrow> pyval \<Rightarrow> bool" where
  "could_be_float E val =
     (if val = PNone then False
      else if isinstance_float val then True
      else (case val of
              PStr s \<Rightarrow> (case py_float E s of Some f \<Rightarrow> True | None \<Rightarrow> False)
            | _ \<Rightarrow> False))"

definition could_be_int :: "builtins \<Rightarrow> pyval \<Rightarrow> bool" where
  "could_be_int E val =
     (if val = PNone then False
      else if isinstance_int val then True
      else (case val of
              PStr s \<Rightarrow> (case py_int E s of Some i \<Rightarrow> True | None \<Rightarrow> False)
            | _ \<Rightarrow> False))"

definition could_be_number :: "builtins \<Rightarrow> pyval \<Rightarrow> bool" where
  "could_be_number E val =
     (if val = PNone then False
      else if isinstance_float val \<or> isinstance_int val then True
      else (case val of
              PStr s \<Rightarrow> (case py_float E s of Some n \<Rightarrow> True | None \<Rightarrow> False)
            | _ \<Rightarrow> False))"

definition could_be_boolean :: "pyval \<Rightarrow> bool" where
  "could_be_boolean val =
     (if val = PNone then False
      else (case val of
              PBool _ \<Rightarrow> True
            | PStr s \<Rightarrow> lower s \<in> set [''true'', ''1'', ''false'', ''0'']
            | PInt n \<Rightarrow> n \<in> set [0, 1]
            | _ \<Rightarrow> False))"

definition could_be_datetime :: "builtins \<Rightarrow> pyval \<Rightarrow> string option \<Rightarrow> bool" where
  "could_be_datetime E val fmt =
     (case fmt of
        None \<Rightarrow> False
      | Some f \<Rightarrow>
          (case val of
             PNone \<Rightarrow> False
           | PDatetime _ \<Rightarrow> True
           | PStr s \<Rightarrow>
               (if is_empty_str (PStr s) \<or> is_empty_str (PStr f) then False
                else (case py_strptime E s f of Some d \<Rightarrow> True | None \<Rightarrow> False))
           | _ \<Rightarrow> False))"

text \<open>The conversions \<open>int(v)\<close>, \<open>float(v)\<close> and \<open>bool(v)\<close> of a value.\<close>

definition int_of :: "builtins \<Rightarrow> pyval \<Rightarrow> error + int" where
  "int_of E val =
     (case val of
        PInt n \<Rightarrow> Inr n
      | PBool b \<Rightarrow> Inr (if b then 1 else 0)
      | PStr s \<Rightarrow> (case py_int E s of Some n \<Rightarrow> Inr n | None \<Rightarrow> Inl ValueError)
      | PFloat f \<Rightarrow> (case f of Fin x \<Rightarrow> Inr (if x < 0 then \<lceil>x\<rceil> else \<lfloor>x\<rfloor>)
                     | NaN \<Rightarrow> Inl ValueError | _ \<Rightarrow> Inl OverflowError)
      | _ \<Rightarrow> Inl TypeError)"

definition float_of :: "builtins \<Rightarrow> pyval \<Rightarrow> error + pyfloat" where
  "float_of E val =
     (case val of
        PFloat f \<Rightarrow> Inr f
      | PInt n \<Rightarrow> Inr (Fin (of_int n))
      | PBool b \<Rightarrow> Inr (Fin (if b then 1 else 0))
      | PStr s \<Rightarrow> (case py_float E s of Some f \<Rightarrow> Inr f | None \<Rightarrow> Inl ValueError)
      | _ \<Rightarrow> Inl TypeError)"

definition truthy :: "pyval \<Rightarrow> bool" where
  "truthy val =
     (case val of
        PNone \<Rightarrow> False
      | PStr s \<Rightarrow> s \<noteq> []
      | PInt n \<Rightarrow> n \<noteq> 0
      | PFloat f \<Rightarrow> f \<noteq> Fin 0
      | PBool b \<Rightarrow> b
      | PDatetime _ \<Rightarrow> True
      | PList xs \<Rightarrow> xs \<noteq> []
      | PDict kvs \<Rightarrow> kvs \<noteq> [])"

definition strptime :: "builtins \<Rightarrow> pyval \<Rightarrow> string \<Rightarrow> error + int" where
  "strptime E val fmt =
     (case val of
        PStr s \<Rightarrow> (case py_strptime E s fmt of Some d \<Rightarrow> Inr d | None \<Rightarrow> Inl ValueError)
      | _ \<Rightarrow> Inl TypeError)"

definition parse_boolean :: "builtins \<Rightarrow> pyval \<Rightarrow> error + pyval" where
  "parse_boolean E field =
     (if could_be_boolean field then
        (if could_be_int E field then
           (case int_of E field of Inl e \<Rightarrow> Inl e | Inr n \<Rightarrow> Inr (PBool (n \<noteq> 0)))
         else
           (case field of
              PStr s \<Rightarrow>
                (if lower s = ''true'' then Inr (PBool True)
                 else if lower s = ''false'' then Inr (PBool False)
                 else Inr (PBool (truthy field)))
            | _ \<Rightarrow> Inr (PBool (truthy field))))
      else Inr PNone)"

subsection \<open>\<open>Record.set_field_by_schema\<close>\<close>

text \<open>
  The method on the field mapping: it returns the updated mapping, or the exception
  that leaves the method.
\<close>

definition set_field_by_schema ::
  "builtins \<Rightarrow> schema \<Rightarrow> string \<Rightarrow> pyval \<Rightarrow> pydict \<Rightarrow> error + pydict" where
  "set_field_by_schema E sch header field fs =
     (case map_of sch header of
        None \<Rightarrow> (if DISABLE_SCHEMA_MATCH then Inr fs else Inl InvalidRecordProperty)
      | Some d \<Rightarrow>
          (let data_type = lower (rtype d) in
           if data_type = ''string'' then
             (if is_empty_str field then Inr (dict_set header PNone fs)
              else if field = PStr ''?'' then Inr (dict_set header PNone fs)
              else Inr (dict_set header field fs))
           else if data_type = ''integer'' then
             (if could_be_int E field then
                (case int_of E field of
                   Inl e \<Rightarrow> Inl e
                 | Inr n \<Rightarrow> Inr (dict_set header (PInt n) fs))
              else Inr (dict_set header PNone fs))
           else if data_type = ''datetime'' then
             (case datetime_format d of
                None \<Rightarrow> Inl KeyError
              | Some df \<Rightarrow>
                  (let datetime_format = (case df of None \<Rightarrow> STRFTIME_FORMAT | Some f \<Rightarrow> f) in
                   if could_be_datetime E field (Some datetime_format) then
                     (case strptime E field datetime_format of
                        Inl e \<Rightarrow> Inl e
                      | Inr t \<Rightarrow> Inr (dict_set header (PDatetime t) fs))
                   else Inr (dict_set header PNone fs)))
           else if data_type = ''number'' then
             (if could_be_number E field then
                (case float_of E field of
                   Inl e \<Rightarrow> Inl e
                 | Inr x \<Rightarrow> Inr (dict_set header (PFloat x) fs))
              else Inr (dict_set header PNone fs))
           else if data_type = ''float'' then
             (if could_be_float E field then
                (case float_of E field of
                   Inl e \<Rightarrow> Inl e
                 | Inr x \<Rightarrow> Inr (dict_set header (PFloat x) fs))
              else Inr (dict_set header PNone fs))
           else if data_type = ''boolean'' then
             (case parse_boolean E field of
                Inl e \<Rightarrow> Inl e
              | Inr b \<Rightarrow> Inr (dict_set header b fs))
           else Inr fs))"

subsection \<open>The cerberus validator\<close>

text \<open>
  The rules of the cerberus library that the schemas of this repository use: \<open>type\<close>,
  \<open>nullable\<close>, \<open>required\<close>, a nested \<open>schema\<close> and the validator's \<open>allow_unknown\<close>.
  \<open>validator_errors\<close> is the error mapping a call of \<open>validate\<close> leaves behind, and
  the document is valid when it is empty.
\<close>

definition type_ok :: "string \<Rightarrow> pyval \<Rightarrow> bool" where
  "type_ok t v =
     (if t = ''string'' then (case v of PStr _ \<Rightarrow> True | _ \<Rightarrow> False)
      else if t = ''integer'' then isinstance_int v
      else if t = ''number'' \<or> t = ''float'' then isinstance_float v \<or> isinstance_int v
      else if t = ''boolean'' then (case v of PBool _ \<Rightarrow> True | _ \<Rightarrow> False)
      else if t = ''datetime'' then (case v of PDatetime _ \<Rightarrow> True | _ \<Rightarrow> False)
      else if t = ''dict'' then (case v of PDict _ \<Rightarrow> True | _ \<Rightarrow> False)
      else if t = ''list'' then (case v of PList _ \<Rightarrow> True | _ \<Rightarrow> False)
      else False)"

definition nested_errors :: "(string \<times> string) list \<Rightarrow> bool \<Rightarrow> pydict \<Rightarrow> pydict" where
  "nested_errors sub allow_unknown kvs =
     concat (map (\<lambda>(k, v).
       (case map_of sub k of
          None \<Rightarrow> (if allow_unknown then [] else [(k, PStr ''unknown field'')])
        | Some t \<Rightarrow>
            (if v = PNone then [(k, PStr ''null value not allowed'')]
             else if type_ok t v then []
             else [(k, PStr (''must be of '' @ t @ '' type''))]))) kvs)"

definition field_errors :: "schema \<Rightarrow> bool \<Rightarrow> string \<times> pyval \<Rightarrow> pydict" where
  "field_errors sch allow_unknown kv =
     (case map_of sch (fst kv) of
        None \<Rightarrow> (if allow_unknown then [] else [(fst kv, PStr ''unknown field'')])
      | Some d \<Rightarrow>
          (if snd kv = PNone then
             (if nullable d then [] else [(fst kv, PStr ''null value not allowed'')])
           else if \<not> type_ok (rtype d) (snd kv) then
             [(fst kv, PStr (''must be of '' @ rtype d @ '' type''))]
           else
             (case (subschema d, snd kv) of
                (Some sub, PDict kvs) \<Rightarrow>
                  (let es = nested_errors sub allow_unknown kvs
                   in if es = [] then [] else [(fst kv, PDict es)])
              | _ \<Rightarrow> [])))"

definition required_errors :: "schema \<Rightarrow> pydict \<Rightarrow> pydict" where
  "required_errors sch doc =
     map (\<lambda>kd. (fst kd, PStr ''required field''))
       (filter (\<lambda>kd. required (snd kd) \<and> fst kd \<notin> fst ` set doc) sch)"

definition validator_errors :: "schema \<Rightarrow> bool \<Rightarrow> pydict \<Rightarrow> pydict" where
  "validator_errors sch allow_unknown doc =
     concat (map (field_errors sch allow_unknown) doc) @ required_errors sch doc"

subsection \<open>\<open>InvalidRecord\<close>\<close>

definition invalid_record_schema :: schema where
  "invalid_record_schema =
     [(''Date'', mk_rule ''datetime'' False True),
      (''Errors'', mk_rule ''dict'' False True),
      (''RecordType'', mk_rule ''string'' False True),
      (''RowNum'', mk_rule ''integer'' True False)]"

text \<open>The constructor: the field mapping of the new invalid record.\<close>

definition InvalidRecord :: "builtins \<Rightarrow> pyval \<Rightarrow> pyval \<Rightarrow> pyval \<Rightarrow> pydict" where
  "InvalidRecord E errors record_type row_num =
     dict_set ''RowNum'' row_num
       (dict_set ''RecordType'' record_type
         (dict_set ''Errors'' errors
           (dict_set ''Date'' (PDatetime (py_utcnow E)) [])))"

definition invalid_validate :: "pydict \<Rightarrow> bool" where
  "invalid_validate flds = (validator_errors invalid_record_schema False flds = [])"

subsection \<open>\<open>Record\<close>\<close>

text \<open>
  The three record classes, and the state of one record object: its header row, its
  provider map (header to canonical field), the field mapping \<open>fields\<close>, the identifier
  (\<open>PNone\<close> until set), the row number and the errors of its validator's last run.
\<close>

datatype variant = TaxonomyRecord | MigrationChecklistRecord | MigrationCoreRecord

record rstate =
  header_row :: "string list option"
  provider_map :: "(string \<times> string) list"
  rfields :: pydict
  rec_id :: pyval
  row_count :: int
  verrors :: pydict

definition new_record ::
  "string list option \<Rightarrow> (string \<times> string) list \<Rightarrow> int \<Rightarrow> rstate" where
  "new_record hdr pmap rc =
     \<lparr>header_row = hdr, provider_map = pmap, rfields = [], rec_id = PNone,
      row_count = rc, verrors = []\<rparr>"

definition map_header :: "rstate \<Rightarrow> string \<Rightarrow> error + string option" where
  "map_header r header =
     (if lower header \<in> set (map (\<lambda>kv. lower (fst kv)) (provider_map r)) then
        (case map_of (provider_map r) (lower header) of
           None \<Rightarrow> Inl KeyError
         | Some maps_to \<Rightarrow> Inr (Some maps_to))
      else Inr None)"

text \<open>
  Modelled from the spec: \<open>Record.sanitize_key\<close>, which both migration records call
  on an unmapped header and which no file under src/ defines. The spec: the column is
  retained under a sanitized name, non-alphanumeric characters replaced, e.g. with
  underscore.
\<close>

definition is_alnum :: "char \<Rightarrow> bool" where
  "is_alnum c =
     (let n = (of_char c :: nat)
      in (48 \<le> n \<and> n \<le> 57) \<or> (65 \<le> n \<and> n \<le> 90) \<or> (97 \<le> n \<and> n \<le> 122))"

definition sanitize_key :: "string \<Rightarrow> string" where
  "sanitize_key key = map (\<lambda>c. if is_alnum c then c else CHR ''_'') key"

text \<open>
  The loop shared by the three \<open>create\<close> methods:
  \<^verbatim>\<open>for field in row: unmappedHeader = self.header_row[position]; position += 1; ...\<close>
  with the body as a step on the loop's state. Indexing past the header raises.
\<close>

fun row_loop ::
  "('s \<Rightarrow> string \<Rightarrow> string \<Rightarrow> error + 's) \<Rightarrow> string list \<Rightarrow> nat \<Rightarrow> string list \<Rightarrow> 's
     \<Rightarrow> error + 's" where
  "row_loop body hdr position [] s = Inr s"
| "row_loop body hdr position (field # row) s =
     (if position < length hdr then
        (case body s (hdr ! position) field of
           Inl e \<Rightarrow> Inl e
         | Inr s' \<Rightarrow> row_loop body hdr (position + 1) row s')
      else Inl IndexError)"

definition validation_errors :: "builtins \<Rightarrow> rstate \<Rightarrow> pydict" where
  "validation_errors E r =
     (let errors = verrors r
      in if length errors > 0 then dict_set ''fields'' (PStr (py_json E (rfields r))) errors
         else errors)"

text \<open>\<open>Record.validate\<close> with the schema and \<open>allow_unknown\<close> of the record's validator.\<close>

definition validate :: "schema \<Rightarrow> bool \<Rightarrow> rstate \<Rightarrow> bool \<times> rstate" where
  "validate sch allow_unknown r =
     (if rec_id r = PNone then (False, r)
      else (let es = validator_errors sch allow_unknown (rfields r)
            in (es = [], r\<lparr>verrors := es\<rparr>)))"

section \<open>records/taxonomy.py\<close>

definition TaxonomyType_map :: "(string \<times> string) list" where
  "TaxonomyType_map =
     [(''sci_name'', ''sci_name''),
      (''taxon_order'', ''taxon_order''),
      (''primary_com_name'', ''primary_com_name''),
      (''category'', ''category''),
      (''order_name'', ''order_name''),
      (''family_name'', ''family_name''),
      (''subfamily_name'', ''subfamily_name''),
      (''genus_name'', ''genus_name''),
      (''species_name'', ''species_name'')]"

definition taxonomy_schema :: schema where
  "taxonomy_schema =
     [(''taxon_order'', mk_rule ''number'' True False),
      (''primary_com_name'', mk_rule ''string'' False True),
      (''category'', mk_rule ''string'' True False),
      (''order_name'', mk_rule ''string'' True False),
      (''family_name'', mk_rule ''string'' True False),
      (''subfamily_name'', mk_rule ''string'' True False),
      (''genus_name'', mk_rule ''string'' True False),
      (''species_name'', mk_rule ''string'' True False)]"

definition taxonomy_body :: "builtins \<Rightarrow> rstate \<Rightarrow> string \<Rightarrow> string \<Rightarrow> error + rstate" where
  "taxonomy_body E r unmappedHeader field =
     (case map_header r unmappedHeader of
        Inl e \<Rightarrow> Inl e
      | Inr None \<Rightarrow> Inr r
      | Inr (Some header) \<Rightarrow>
          (if is_empty_str (PStr header) then Inr r
           else if lower header = ''sci_name'' then
             (if \<not> is_empty_str (PStr field) then Inr (r\<lparr>rec_id := PStr (lower field)\<rparr>)
              else Inr r)
           else
             (case set_field_by_schema E taxonomy_schema header (PStr field) (rfields r) of
                Inl e \<Rightarrow> Inl e
              | Inr fs \<Rightarrow> Inr (r\<lparr>rfields := fs\<rparr>))))"

definition taxonomy_create :: "builtins \<Rightarrow> rstate \<Rightarrow> string list \<Rightarrow> error + rstate" where
  "taxonomy_create E r row =
     (case header_row r of
        None \<Rightarrow> Inl InvalidRecordProperty
      | Some hdr \<Rightarrow>
          (let header_len = length hdr; field_len = length row
           in if header_len \<noteq> field_len then Inl InvalidRecordLength
              else row_loop (taxonomy_body E) hdr 0 row r))"

section \<open>records/migration.py\<close>

subsection \<open>\<open>datetime\<close> and \<open>timedelta\<close>\<close>

text \<open>
  \<open>datetime(year, 1, 1)\<close> as an ordinal: a year outside 1..9999 raises ValueError, one
  that is no C int raises OverflowError. \<open>timedelta(days=d)\<close> raises OverflowError
  beyond 999999999 days, and so does a sum that leaves 0001-01-01..9999-12-31.
\<close>

definition days_before_year :: "int \<Rightarrow> int" where
  "days_before_year year =
     (let y = year - 1 in y * 365 + y div 4 - y div 100 + y div 400)"

definition MAXORDINAL :: int where
  "MAXORDINAL = 3652059"

definition datetime_jan1 :: "int \<Rightarrow> error + int" where
  "datetime_jan1 year =
     (if year < - (2 ^ 31) \<or> 2 ^ 31 \<le> year then Inl OverflowError
      else if year < 1 \<or> 9999 < year then Inl ValueError
      else Inr (days_before_year year + 1))"

definition timedelta_days :: "int \<Rightarrow> error + int" where
  "timedelta_days d = (if 999999999 < \<bar>d\<bar> then Inl OverflowError else Inr d)"

definition datetime_add :: "int \<Rightarrow> int \<Rightarrow> error + int" where
  "datetime_add t d =
     (let s = t + d in if s < 1 \<or> MAXORDINAL < s then Inl OverflowError else Inr s)"

subsection \<open>Migration checklist\<close>

definition MigrationChecklistType_map :: "(string \<times> string) list" where
  "MigrationChecklistType_map =
     [(''sampling_event_id'', ''sampling_event_id''),
      (''loc_id'', ''loc_id''),
      (''latitude'', ''latitude''),
      (''longitude'', ''longitude''),
      (''year'', ''year''),
      (''month'', ''month''),
      (''day'', ''day''),
      (''time'', ''time''),
      (''country'', ''country''),
      (''state_province'', ''state_province''),
      (''county'', ''county''),
      (''count_type'', ''count_type''),
      (''effort_hrs'', ''effort_hrs''),
      (''effort_distance_km'', ''effort_distance_km''),
      (''effort_area_ha'', ''effort_area_ha''),
      (''observer_id'', ''observer_id''),
      (''number_observers'', ''number_observers''),
      (''group_id'', ''group_id''),
      (''primary_checklist_flag'', ''primary_checklist_flag'')]"

definition checklist_schema :: schema where
  "checklist_schema =
     [(''loc_id'', mk_rule ''string'' True False),
      (''loc'', \<lparr>rtype = ''dict'', nullable = False, required = False,
                datetime_format = None,
                subschema = Some [(''type'', ''string''), (''coordinates'', ''list'')]\<rparr>),
      (''year'', mk_rule ''integer'' False True),
      (''month'', mk_rule ''integer'' False True),
      (''day'', mk_rule ''integer'' False True),
      (''time'', mk_rule ''number'' True False),
      (''country'', mk_rule ''string'' True False),
      (''state_province'', mk_rule ''string'' True False),
      (''county'', mk_rule ''string'' True False),
      (''count_type'', mk_rule ''string'' True False),
      (''effort_hrs'', mk_rule ''number'' True False),
      (''effort_distance_km'', mk_rule ''number'' True False),
      (''effort_area_ha'', mk_rule ''number'' True False),
      (''observer_id'', mk_rule ''string'' True False),
      (''number_observers'', mk_rule ''integer'' True False),
      (''group_id'', mk_rule ''string'' True False),
      (''primary_checklist_flag'', mk_rule ''boolean'' True False)]"

text \<open>The coordinate pair \<open>[longitude, latitude]\<close>, each \<open>None\<close> until set.\<close>

type_synonym coordinates = "pyfloat option \<times> pyfloat option"

definition is_valid_coordinate_pair :: "coordinates \<Rightarrow> bool" where
  "is_valid_coordinate_pair coordinates =
     (case coordinates of
        (Some longitude, Some latitude) \<Rightarrow>
          (if flt latitude (- 90) \<or> fgt latitude 90 then False
           else if flt longitude (- 180) \<or> fgt longitude 180 then False
           else True)
      | _ \<Rightarrow> False)"

text \<open>
  \<open>gen_date\<close> returns the date (\<open>PNone\<close> for none) and the record with the errors of
  the validator's run. Only a ValueError is caught.
\<close>

definition year_day_date :: "builtins \<Rightarrow> pyval \<Rightarrow> pyval \<Rightarrow> error + int" where
  "year_day_date E year day =
     (if \<not> isinstance_int year then Inl TypeError
      else case int_of E year of
        Inl e \<Rightarrow> Inl e
      | Inr y \<Rightarrow>
          (case datetime_jan1 y of
             Inl e \<Rightarrow> Inl e
           | Inr theYear \<Rightarrow>
               (if \<not> isinstance_int day then Inl TypeError
                else case int_of E day of
                  Inl e \<Rightarrow> Inl e
                | Inr d \<Rightarrow>
                    (case timedelta_days (d - 1) of
                       Inl e \<Rightarrow> Inl e
                     | Inr delta \<Rightarrow> datetime_add theYear delta))))"

definition gen_date :: "builtins \<Rightarrow> rstate \<Rightarrow> error + (pyval \<times> rstate)" where
  "gen_date E r =
     (if length (rfields r) = 0 then Inr (PNone, r)
      else
        (let es = validator_errors checklist_schema True (rfields r);
             r' = r\<lparr>verrors := es\<rparr>
         in if es \<noteq> [] then Inr (PNone, r')
            else
              (case (map_of (rfields r) ''year'', map_of (rfields r) ''day'') of
                 (Some year, Some day) \<Rightarrow>
                   (case year_day_date E year day of
                      Inl ValueError \<Rightarrow> Inr (PNone, r')
                    | Inl e \<Rightarrow> Inl e
                    | Inr date \<Rightarrow> Inr (PDatetime date, r'))
               | _ \<Rightarrow> Inl KeyError)))"

definition checklist_body ::
  "builtins \<Rightarrow> rstate \<times> coordinates \<Rightarrow> string \<Rightarrow> string \<Rightarrow> error + rstate \<times> coordinates" where
  "checklist_body E s unmappedHeader field =
     (let r = fst s; coordinates = snd s in
      case map_header r unmappedHeader of
        Inl e \<Rightarrow> Inl e
      | Inr None \<Rightarrow>
          (let sanitized = sanitize_key unmappedHeader in
           if could_be_int E (PStr field) then
             (case int_of E (PStr field) of
                Inl e \<Rightarrow> Inl e
              | Inr v \<Rightarrow>
                  (if v > 0 then
                     Inr (r\<lparr>rfields := dict_set sanitized (PInt v) (rfields r)\<rparr>, coordinates)
                   else Inr (r, coordinates)))
           else Inr (r, coordinates))
      | Inr (Some header) \<Rightarrow>
          (if is_empty_str (PStr header) then Inr (r, coordinates)
           else if lower header = ''sampling_event_id'' then
             (if \<not> is_empty_str (PStr field) then Inr (r\<lparr>rec_id := PStr field\<rparr>, coordinates)
              else Inr (r, coordinates))
           else if lower header = ''longitude'' then
             (if could_be_float E (PStr field) then
                (case float_of E (PStr field) of
                   Inl e \<Rightarrow> Inl e
                 | Inr x \<Rightarrow> Inr (r, (Some x, snd coordinates)))
              else Inr (r, coordinates))
           else if lower header = ''latitude'' then
             (if could_be_float E (PStr field) then
                (case float_of E (PStr field) of
                   Inl e \<Rightarrow> Inl e
                 | Inr x \<Rightarrow> Inr (r, (fst coordinates, Some x)))
              else Inr (r, coordinates))
           else
             (case set_field_by_schema E checklist_schema header (PStr field) (rfields r) of
                Inl e \<Rightarrow> Inl e
              | Inr fs \<Rightarrow> Inr (r\<lparr>rfields := fs\<rparr>, coordinates))))"

definition point :: "coordinates \<Rightarrow> pyval" where
  "point coordinates =
     PDict [(''type'', PStr ''Point''),
            (''coordinates'',
               PList (map (\<lambda>c. case c of None \<Rightarrow> PNone | Some x \<Rightarrow> PFloat x)
                        [fst coordinates, snd coordinates]))]"

definition checklist_create :: "builtins \<Rightarrow> rstate \<Rightarrow> string list \<Rightarrow> error + rstate" where
  "checklist_create E r row =
     (case header_row r of
        None \<Rightarrow> Inl InvalidRecordProperty
      | Some hdr \<Rightarrow>
          (case row_loop (checklist_body E) hdr 0 row (r, (None, None)) of
             Inl e \<Rightarrow> Inl e
           | Inr (r1, coordinates) \<Rightarrow>
               (let loc = (if is_valid_coordinate_pair coordinates then point coordinates
                           else PNone);
                    r2 = r1\<lparr>rfields := dict_set ''loc'' loc (rfields r1)\<rparr>
                in case gen_date E r2 of
                     Inl e \<Rightarrow> Inl e
                   | Inr (date, r3) \<Rightarrow>
                       Inr (r3\<lparr>rfields := dict_set ''date'' date (rfields r3)\<rparr>))))"

subsection \<open>Migration core\<close>

definition MigrationCoreType_map :: "(string \<times> string) list" where
  "MigrationCoreType_map =
     [(''sampling_event_id'', ''sampling_event_id''),
      (''loc_id'', ''loc_id''),
      (''pop00_sqmi'', ''pop00_sqmi''),
      (''housing_density'', ''housing_density''),
      (''housing_percent_vacant'', ''housing_percent_vacant''),
      (''elev_gt'', ''elev_gt''),
      (''elev_ned'', ''elev_ned''),
      (''bcr'', ''bcr''),
      (''bailey_ecoregion'', ''bailey_ecoregion''),
      (''omernik_l3_ecoregion'', ''omernik_l3_ecoregion''),
      (''caus_temp_avg'', ''caus_temp_avg''),
      (''caus_temp_min'', ''caus_temp_min''),
      (''caus_temp_max'', ''caus_temp_max''),
      (''caus_prec'', ''caus_prec''),
      (''caus_snow'', ''caus_snow'')]"

definition core_schema :: schema where
  "core_schema =
     [(''loc_id'', mk_rule ''string'' True False),
      (''pop00_sqmi'', mk_rule ''number'' True False),
      (''housing_density'', mk_rule ''number'' True False),
      (''housing_percent_vacant'', mk_rule ''number'' True False),
      (''elev_gt'', mk_rule ''integer'' True False),
      (''elev_ned'', mk_rule ''number'' True False),
      (''bcr'', mk_rule ''integer'' True False),
      (''bailey_ecoregion'', mk_rule ''string'' True False),
      (''omernik_l3_ecoregion'', mk_rule ''integer'' True False),
      (''caus_temp_avg'', mk_rule ''integer'' True False),
      (''caus_temp_min'', mk_rule ''integer'' True False),
      (''caus_temp_max'', mk_rule ''integer'' True False),
      (''caus_prec'', mk_rule ''integer'' True False),
      (''caus_snow'', mk_rule ''integer'' True False)]"

definition core_body :: "builtins \<Rightarrow> rstate \<Rightarrow> string \<Rightarrow> string \<Rightarrow> error + rstate" where
  "core_body E r unmappedHeader field =
     (case map_header r unmappedHeader of
        Inl e \<Rightarrow> Inl e
      | Inr None \<Rightarrow>
          (let sanitized = sanitize_key unmappedHeader in
           if could_be_number E (PStr field) then
             (case float_of E (PStr field) of
                Inl e \<Rightarrow> Inl e
              | Inr x \<Rightarrow> Inr (r\<lparr>rfields := dict_set sanitized (PFloat x) (rfields r)\<rparr>))
           else Inr (r\<lparr>rfields := dict_set sanitized PNone (rfields r)\<rparr>))
      | Inr (Some header) \<Rightarrow>
          (if is_empty_str (PStr header) then Inr r
           else if lower header = ''sampling_event_id'' then
             (if \<not> is_empty_str (PStr field) then Inr (r\<lparr>rec_id := PStr field\<rparr>)
              else Inr r)
           else
             (case set_field_by_schema E core_schema header (PStr field) (rfields r) of
                Inl e \<Rightarrow> Inl e
              | Inr fs \<Rightarrow> Inr (r\<lparr>rfields := fs\<rparr>))))"

definition core_create :: "builtins \<Rightarrow> rstate \<Rightarrow> string list \<Rightarrow> error + rstate" where
  "core_create E r row =
     (case header_row r of
        None \<Rightarrow> Inl InvalidRecordProperty
      | Some hdr \<Rightarrow> row_loop (core_body E) hdr 0 row r)"

section \<open>tools/birt\_file\_reader.py\<close>

text \<open>
  A provider type: the record class it builds, its header map and the row on which
  the data begins.
\<close>

record provider_type =
  record_class :: variant
  type_map :: "(string \<times> string) list"
  data_position :: int

definition TaxonomyType :: provider_type where
  "TaxonomyType =
     \<lparr>record_class = TaxonomyRecord, type_map = TaxonomyType_map, data_position = 1\<rparr>"

definition MigrationChecklistType :: provider_type where
  "MigrationChecklistType =
     \<lparr>record_class = MigrationChecklistRecord, type_map = MigrationChecklistType_map,
      data_position = 1\<rparr>"

definition MigrationCoreType :: provider_type where
  "MigrationCoreType =
     \<lparr>record_class = MigrationCoreRecord, type_map = MigrationCoreType_map,
      data_position = 1\<rparr>"

definition class_name :: "variant \<Rightarrow> string" where
  "class_name v =
     (case v of
        TaxonomyRecord \<Rightarrow> ''TaxonomyRecord''
      | MigrationChecklistRecord \<Rightarrow> ''MigrationChecklistRecord''
      | MigrationCoreRecord \<Rightarrow> ''MigrationCoreRecord'')"

definition create :: "builtins \<Rightarrow> variant \<Rightarrow> rstate \<Rightarrow> string list \<Rightarrow> error + rstate" where
  "create E v r row =
     (case v of
        TaxonomyRecord \<Rightarrow> taxonomy_create E r row
      | MigrationChecklistRecord \<Rightarrow> checklist_create E r row
      | MigrationCoreRecord \<Rightarrow> core_create E r row)"

definition record_validate :: "variant \<Rightarrow> rstate \<Rightarrow> bool \<times> rstate" where
  "record_validate v r =
     (case v of
        TaxonomyRecord \<Rightarrow> validate taxonomy_schema False r
      | MigrationChecklistRecord \<Rightarrow> validate checklist_schema True r
      | MigrationCoreRecord \<Rightarrow> validate core_schema True r)"

text \<open>
  One element of a chunk: row number, row, provider type, header row, end of data.
  \<open>process_row\<close> returns the pair \<open>[valid, invalid]\<close>, or \<open>None\<close> where the source
  executes a bare \<open>return\<close>, or the exception it does not catch.
\<close>

type_synonym row_args = "int \<times> string list \<times> provider_type \<times> string list \<times> int"

type_synonym outcome = "rstate option \<times> pydict option"

definition process_row :: "builtins \<Rightarrow> row_args \<Rightarrow> error + outcome option" where
  "process_row E args =
     (case args of (row_number, row, ptype, hdr, end_of_data) \<Rightarrow>
        (if row_number \<ge> data_position ptype \<and> row_number \<noteq> end_of_data then
           (if list_ex (\<lambda>f. f \<noteq> []) row then
              (let record = new_record (Some hdr) (type_map ptype) row_number
               in case create E (record_class ptype) record row of
                    Inl InvalidRecordProperty \<Rightarrow> Inr None
                  | Inl InvalidRecordLength \<Rightarrow> Inr None
                  | Inl e \<Rightarrow> Inl e
                  | Inr created \<Rightarrow>
                      (case record_validate (record_class ptype) created of
                         (True, validated) \<Rightarrow> Inr (Some (Some validated, None))
                       | (False, validated) \<Rightarrow>
                           (let invalid_record =
                                  InvalidRecord E (PDict (validation_errors E validated))
                                    (PStr (class_name (record_class ptype)))
                                    (PInt (row_count validated))
                            in if invalid_validate invalid_record
                               then Inr (Some (None, Some invalid_record))
                               else Inr (Some (None, None)))))
            else Inr (Some (None, None)))
         else Inr (Some (None, None))))"

text \<open>
  \<open>syncprocess_chunk\<close>: the loop unpacks each result into \<open>valid, invalid\<close>, which
  raises TypeError on \<open>None\<close>; the value returned is the pair of batches handed to
  \<open>bulk_upsert\<close>.
\<close>

fun chunk_loop ::
  "builtins \<Rightarrow> row_args list \<Rightarrow> rstate list \<Rightarrow> pydict list
     \<Rightarrow> error + rstate list \<times> pydict list" where
  "chunk_loop E [] valid_records invalid_records = Inr (valid_records, invalid_records)"
| "chunk_loop E (data # chunk) valid_records invalid_records =
     (case process_row E data of
        Inl e \<Rightarrow> Inl e
      | Inr None \<Rightarrow> Inl TypeError
      | Inr (Some (valid, invalid)) \<Rightarrow>
          chunk_loop E chunk
            (case valid of None \<Rightarrow> valid_records | Some v \<Rightarrow> valid_records @ [v])
            (case invalid of None \<Rightarrow> invalid_records | Some i \<Rightarrow> invalid_records @ [i]))"

definition syncprocess_chunk ::
  "builtins \<Rightarrow> row_args list \<Rightarrow> error + rstate list \<times> pydict list" where
  "syncprocess_chunk E chunk = chunk_loop E chunk [] []"

section \<open>A runtime for closed examples\<close>

text \<open>
  A stand-in for the Python runtime, used only where a statement is evaluated on a
  concrete row: \<open>int\<close> and \<open>float\<close> read decimal integer literals with an optional
  minus sign (and \<open>float\<close> the literal \<open>nan\<close>), and reject the other fields that the
  examples use, as Python does.
\<close>

definition digit_val :: "char \<Rightarrow> int option" where
  "digit_val c =
     (let n = (of_char c :: nat) in if 48 \<le> n \<and> n \<le> 57 then Some (int n - 48) else None)"

fun digits_val :: "int \<Rightarrow> string \<Rightarrow> int option" where
  "digits_val acc [] = Some acc"
| "digits_val acc (c # cs) =
     (case digit_val c of None \<Rightarrow> None | Some d \<Rightarrow> digits_val (10 * acc + d) cs)"

definition dec_int :: "string \<Rightarrow> int option" where
  "dec_int s =
     (case s of
        [] \<Rightarrow> None
      | c # cs \<Rightarrow>
          (if c = CHR ''-'' then
             (if cs = [] then None else map_option uminus (digits_val 0 cs))
           else digits_val 0 s))"

definition dec_float :: "string \<Rightarrow> pyfloat option" where
  "dec_float s = (if s = ''nan'' then Some NaN else map_option (\<lambda>n. Fin (of_int n)) (dec_int s))"

definition runtime :: builtins where
  "runtime =
     \<lparr>py_int = dec_int, py_float = dec_float, py_strptime = (\<lambda>s fmt. None),
      py_json = (\<lambda>d. ''{}''), py_utcnow = 736330\<rparr>"

section \<open>Reading a row by column\<close>

text \<open>
  The spec's view of a row, against which the loops of \<open>create\<close> are compared: the
  fields of the columns whose header, lower-cased, is \<open>name\<close>, and the coordinate a row
  gives under that name, the float of the last such field that \<open>float\<close> accepts.
\<close>

definition column_fields :: "string \<Rightarrow> string list \<Rightarrow> string list \<Rightarrow> string list" where
  "column_fields name hdr row =
     map snd (filter (\<lambda>uf. lower (fst uf) = name) (zip hdr row))"

fun last_float :: "builtins \<Rightarrow> string list \<Rightarrow> pyfloat option" where
  "last_float E [] = None"
| "last_float E (f # fs) =
     (case last_float E fs of Some x \<Rightarrow> Some x | None \<Rightarrow> py_float E f)"

definition row_coordinate ::
  "builtins \<Rightarrow> string \<Rightarrow> string list \<Rightarrow> string list \<Rightarrow> pyfloat option" where
  "row_coordinate E name hdr row = last_float E (column_fields name hdr row)"

text \<open>
  A provider map is plain when every key is lower-case, maps to itself and is not
  blank, as in the three maps of this repository.
\<close>

definition plain_map :: "(string \<times> string) list \<Rightarrow> bool" where
  "plain_map pm =
     list_all (\<lambda>kv. lower (fst kv) = fst kv \<and> snd kv = fst kv
                \<and> \<not> is_empty_str (PStr (fst kv))) pm"

text \<open>The value \<open>create\<close> stores under \<open>loc\<close> for a coordinate pair.\<close>

definition loc_of :: "coordinates \<Rightarrow> pyval" where
  "loc_of c = (if is_valid_coordinate_pair c then point c else PNone)"

section \<open>Rows for closed examples\<close>

definition checklist_header :: "string list" where
  "checklist_header =
     [''sampling_event_id'', ''latitude'', ''longitude'', ''year'', ''month'', ''day'',
      ''country'', ''turdus migratorius'']"

definition checklist_record :: rstate where
  "checklist_record = new_record (Some checklist_header) MigrationChecklistType_map 1"

definition row_in_range :: "string list" where
  "row_in_range = [''S1'', ''40'', ''100'', ''2021'', ''1'', ''400'', ''US'', ''3'']"

definition row_lon_200 :: "string list" where
  "row_lon_200 = [''S1'', ''40'', ''200'', ''2021'', ''1'', ''400'', ''US'', ''3'']"

definition created_in_range :: rstate where
  "created_in_range =
     checklist_record
       \<lparr>rfields :=
          [(''year'', PInt 2021), (''month'', PInt 1), (''day'', PInt 400),
           (''country'', PStr ''US''), (''turdus_migratorius'', PInt 3),
           (''loc'', PDict [(''type'', PStr ''Point''),
                            (''coordinates'', PList [PFloat (Fin 100), PFloat (Fin 40)])]),
           (''date'', PDatetime 738190)],
        rec_id := PStr ''S1''\<rparr>"

definition created_lon_200 :: rstate where
  "created_lon_200 =
     checklist_record
       \<lparr>rfields :=
          [(''year'', PInt 2021), (''month'', PInt 1), (''day'', PInt 400),
           (''country'', PStr ''US''), (''turdus_migratorius'', PInt 3),
           (''loc'', PNone), (''date'', PNone)],
        rec_id := PStr ''S1'',
        verrors := [(''loc'', PStr ''null value not allowed'')]\<rparr>"


text \<open>The declared types under which coercion stores a value.\<close>

definition typed :: "schema \<Rightarrow> string \<Rightarrow> bool" where
  "typed sch h =
     (case map_of sch h of
        None \<Rightarrow> False
      | Some d \<Rightarrow> lower (rtype d) \<in> set [''string'', ''integer'', ''number'', ''float'', ''boolean''])"

definition no_datetime :: "schema \<Rightarrow> bool" where
  "no_datetime sch = list_all (\<lambda>kd. lower (rtype (snd kd)) \<noteq> ''datetime'') sch"

definition row_lon_nan :: "string list" where
  "row_lon_nan = [''S1'', ''40'', ''nan'', ''2021'', ''1'', ''400'', ''US'', ''3'']"

definition row_year_9999 :: "string list" where
  "row_year_9999 = [''S1'', ''40'', ''100'', ''9999'', ''1'', ''400'', ''US'', ''3'']"




section \<open>Properties\<close>

subsection \<open>Ordered dictionaries\<close>

lemma map_of_dict_set: "map_of (dict_set k v d) = (map_of d)(k \<mapsto> v)"
  by (induction d) (auto simp: fun_eq_iff)

lemma keys_dict_set: "fst ` set (dict_set k v d) = insert k (fst ` set d)"
  by (induction d) auto

subsection \<open>Coercion of string fields\<close>




subsection \<open>Re-coercion of a datetime\<close>

text \<open>
  C8, where the code departs from it: coercing an already coerced \<open>datetime\<close> value
  under a \<open>datetime\<close> field does not return that value, it raises TypeError:
  \<open>could_be_datetime\<close> accepts the value and \<open>strptime\<close> is then called on it.
\<close>

theorem datetime_recoercion_raises:
  assumes "map_of sch header = Some d" and "lower (rtype d) = ''datetime''"
    and "datetime_format d = Some df"
  shows "set_field_by_schema E sch header (PDatetime t) fs = Inl TypeError"
  using assms
  by (simp add: set_field_by_schema_def could_be_datetime_def strptime_def Let_def)

text \<open>A schema with one \<open>datetime\<close> field whose format is left to the default.\<close>

theorem datetime_recoercion_raises_witness:
  "set_field_by_schema runtime
     [(''seen'', \<lparr>rtype = ''datetime'', nullable = True, required = False,
                 datetime_format = Some None, subschema = None\<rparr>)]
     ''seen'' (PDatetime 736330) [] = Inl TypeError"
proof -
  have h1: "map_of [(''seen'', \<lparr>rtype = ''datetime'', nullable = True, required = False,
                 datetime_format = Some None, subschema = None\<rparr>)] ''seen''
            = Some \<lparr>rtype = ''datetime'', nullable = True, required = False,
                 datetime_format = Some None, subschema = None\<rparr>"
    by simp
  have h2: "lower (rtype \<lparr>rtype = ''datetime'', nullable = True, required = False,
                 datetime_format = Some None, subschema = None\<rparr>) = ''datetime''"
    by code_simp
  have h3: "datetime_format \<lparr>rtype = ''datetime'', nullable = True, required = False,
                 datetime_format = Some None, subschema = None\<rparr> = Some None"
    by simp
  show ?thesis by (rule datetime_recoercion_raises [OF h1 h2 h3])
qed

subsection \<open>A malformed row in a chunk\<close>

text \<open>
  C1, where the code departs from it: a taxonomy row shorter than the header makes
  \<open>create\<close> raise the length-mismatch error, \<open>process_row\<close> catches it and returns
  \<open>None\<close>, and unpacking that in \<open>syncprocess_chunk\<close> raises TypeError: the chunk is
  aborted, the well-formed row after it is not processed and nothing is flushed.
\<close>

theorem malformed_row_aborts_chunk:
  "syncprocess_chunk runtime
     [(1, [''a''], TaxonomyType, [''sci_name'', ''primary_com_name''], 3),
      (2, [''turdus migratorius'', ''American Robin''], TaxonomyType,
       [''sci_name'', ''primary_com_name''], 3)]
   = Inl TypeError"
  by code_simp

subsection \<open>Validation of an invalid record\<close>

lemma InvalidRecord_eq:
  "InvalidRecord E errors rt rn =
     [(''Date'', PDatetime (py_utcnow E)), (''Errors'', errors), (''RecordType'', rt),
      (''RowNum'', rn)]"
  by (simp add: InvalidRecord_def)

text \<open>
  C9, as the code has it: an invalid record passes its own schema validation exactly
  when its error payload is a dict (an empty one too), its source-type tag is a string
  (any string) and its row number is an integer or null; the capture timestamp is
  always a datetime.
\<close>

theorem invalid_record_validate_iff:
  "invalid_validate (InvalidRecord E errors record_type row_num) \<longleftrightarrow>
     (\<exists>kvs. errors = PDict kvs) \<and> (\<exists>s. record_type = PStr s)
     \<and> (row_num = PNone \<or> isinstance_int row_num)"
  apply (simp add: InvalidRecord_eq invalid_validate_def validator_errors_def field_errors_def
      required_errors_def invalid_record_schema_def mk_rule_def type_ok_def isinstance_int_def)
  apply (cases errors; cases record_type; cases row_num; simp)
  done

text \<open>An invalid record with an empty payload and a tag that names no record class.\<close>

theorem invalid_record_validate_iff_witness:
  "invalid_validate (InvalidRecord runtime (PDict []) (PStr ''NoSuchRecord'') PNone)"
  using invalid_record_validate_iff [of runtime "PDict []" "PStr ''NoSuchRecord''" PNone]
  by simp

text \<open>
  C9 as stated fails: a taxonomy row without identifier fails validation with no
  schema violation, and its invalid record, whose error payload is empty, is queued.
\<close>

theorem invalid_record_empty_errors_counterexample:
  "process_row runtime
     (1, ['''', ''Unknown''], TaxonomyType, [''sci_name'', ''primary_com_name''], 3)
   = Inr (Some (None, Some [(''Date'', PDatetime 736330), (''Errors'', PDict []),
        (''RecordType'', PStr ''TaxonomyRecord''), (''RowNum'', PInt 1)]))"
  by code_simp

subsection \<open>The checklist record: coordinates and date\<close>

lemma plain_checklist: "plain_map MigrationChecklistType_map"
  by code_simp

lemma plain_core: "plain_map MigrationCoreType_map"
  by code_simp

lemma plain_taxonomy: "plain_map TaxonomyType_map"
  by code_simp

lemma map_header_plain:
  assumes "plain_map (provider_map r)"
  shows "map_header r u = Inr (if lower u \<in> fst ` set (provider_map r) then Some (lower u) else None)"
proof -
  have keys: "(\<lambda>kv. lower (fst kv)) ` set (provider_map r) = fst ` set (provider_map r)"
    using assms by (force simp: plain_map_def list_all_iff)
  show ?thesis
  proof (cases "map_of (provider_map r) (lower u)")
    case None
    then show ?thesis by (simp add: map_header_def keys map_of_eq_None_iff)
  next
    case (Some v)
    then have "(lower u, v) \<in> set (provider_map r)" by (rule map_of_SomeD)
    with assms have "v = lower u" "lower u \<in> fst ` set (provider_map r)"
      by (force simp: plain_map_def list_all_iff)+
    with Some show ?thesis by (simp add: map_header_def keys)
  qed
qed

lemma plain_key:
  assumes "plain_map pm" "k \<in> fst ` set pm"
  shows "lower k = k" "\<not> is_empty_str (PStr k)"
  using assms by (auto simp: plain_map_def list_all_iff)


lemma checklist_keys3:
  "''sampling_event_id'' \<in> fst ` set MigrationChecklistType_map"
  "''longitude'' \<in> fst ` set MigrationChecklistType_map"
  "''latitude'' \<in> fst ` set MigrationChecklistType_map"
  by (simp_all add: MigrationChecklistType_map_def)

lemma float_of_str: "float_of E (PStr f) = (case py_float E f of Some x \<Rightarrow> Inr x | None \<Rightarrow> Inl ValueError)"
  by (simp add: float_of_def)

lemma could_be_float_str: "could_be_float E (PStr f) = (py_float E f \<noteq> None)"
  by (simp add: could_be_float_def isinstance_float_def split: option.splits)

lemma checklist_body_coords:
  assumes "provider_map r = MigrationChecklistType_map"
    and "checklist_body E (r, c) u f = Inr (r', c')"
  shows "provider_map r' = MigrationChecklistType_map
    \<and> fst c' = (if lower u = ''longitude''
                then (case py_float E f of Some x \<Rightarrow> Some x | None \<Rightarrow> fst c) else fst c)
    \<and> snd c' = (if lower u = ''latitude''
                then (case py_float E f of Some x \<Rightarrow> Some x | None \<Rightarrow> snd c) else snd c)"
proof -
  have pl: "plain_map (provider_map r)" using assms(1) plain_checklist by simp
  note mh = map_header_plain [OF pl, of u]
  show ?thesis
  proof (cases "lower u \<in> fst ` set (provider_map r)")
    case False
    then have n: "lower u \<noteq> ''longitude''" "lower u \<noteq> ''latitude''"
      using checklist_keys3(2,3) assms(1) by metis+
    from False assms n show ?thesis
      by (auto simp: checklist_body_def mh Let_def split: if_splits sum.splits)
  next
    case True
    note k = plain_key [OF pl True]
    from True assms k show ?thesis
      by (auto simp: checklist_body_def mh Let_def float_of_str could_be_float_str
          split: if_splits sum.splits option.splits)
  qed
qed

lemma column_fields_Cons:
  "column_fields name (u # hs) (f # fs) =
     (if lower u = name then f # column_fields name hs fs else column_fields name hs fs)"
  by (simp add: column_fields_def)

lemma column_fields_Nil [simp]: "column_fields name hs [] = []"
  by (simp add: column_fields_def)

lemma checklist_loop_coords:
  assumes "row_loop (checklist_body E) hdr pos row (r, c) = Inr (r', c')"
    and "provider_map r = MigrationChecklistType_map"
  shows "provider_map r' = MigrationChecklistType_map
    \<and> fst c' = (case row_coordinate E ''longitude'' (drop pos hdr) row of
                  Some x \<Rightarrow> Some x | None \<Rightarrow> fst c)
    \<and> snd c' = (case row_coordinate E ''latitude'' (drop pos hdr) row of
                  Some x \<Rightarrow> Some x | None \<Rightarrow> snd c)"
  using assms
proof (induction row arbitrary: pos r c)
  case Nil
  then show ?case by (simp add: row_coordinate_def)
next
  case (Cons f row)
  from Cons.prems(1) have lt: "pos < length hdr"
    by (simp split: if_splits)
  from Cons.prems(1) lt obtain r1 c1 where
    step: "checklist_body E (r, c) (hdr ! pos) f = Inr (r1, c1)"
    and rest: "row_loop (checklist_body E) hdr (pos + 1) row (r1, c1) = Inr (r', c')"
    by (auto split: sum.splits)
  note b = checklist_body_coords [OF Cons.prems(2) step]
  from b have pm1: "provider_map r1 = MigrationChecklistType_map" by simp
  note ih = Cons.IH [OF rest pm1]
  have dr: "drop pos hdr = hdr ! pos # drop (pos + 1) hdr"
    using lt by (simp add: Cons_nth_drop_Suc)
  show ?case
    using ih b
    by (auto simp: dr row_coordinate_def column_fields_Cons split: option.splits)
qed


lemma gen_date_fields:
  assumes "gen_date E r = Inr (date, r')"
  shows "rfields r' = rfields r"
  using assms
  by (auto simp: gen_date_def Let_def split: if_splits option.splits sum.splits error.splits)

lemma not_nullable_errors:
  assumes "(k, PNone) \<in> set doc" and "map_of sch k = Some d" and "\<not> nullable d"
  shows "validator_errors sch au doc \<noteq> []"
proof -
  have "field_errors sch au (k, PNone) \<noteq> []"
    using assms(2,3) by (simp add: field_errors_def)
  with assms(1) show ?thesis
    by (auto simp: validator_errors_def)
qed

lemma gen_date_invalid:
  assumes "gen_date E r = Inr (date, r')"
    and "validator_errors checklist_schema True (rfields r) \<noteq> []"
  shows "date = PNone"
  using assms by (auto simp: gen_date_def Let_def split: if_splits)

lemma checklist_create_Inr:
  assumes "checklist_create E r row = Inr r'"
  obtains hdr r1 c date r3 where
    "header_row r = Some hdr"
    "row_loop (checklist_body E) hdr 0 row (r, (None, None)) = Inr (r1, c)"
    "gen_date E (r1\<lparr>rfields := dict_set ''loc'' (loc_of c) (rfields r1)\<rparr>) = Inr (date, r3)"
    "rfields r' = dict_set ''date'' date (dict_set ''loc'' (loc_of c) (rfields r1))"
proof -
  from assms obtain hdr where h: "header_row r = Some hdr"
    by (auto simp: checklist_create_def split: option.splits)
  from assms h obtain r1 c where
    l: "row_loop (checklist_body E) hdr 0 row (r, (None, None)) = Inr (r1, c)"
    by (auto simp: checklist_create_def split: sum.splits)
  from assms h l obtain date r3 where
    g: "gen_date E (r1\<lparr>rfields := dict_set ''loc'' (loc_of c) (rfields r1)\<rparr>) = Inr (date, r3)"
    and e: "r' = r3\<lparr>rfields := dict_set ''date'' date (rfields r3)\<rparr>"
    by (auto simp: checklist_create_def loc_of_def Let_def split: sum.splits)
  from gen_date_fields [OF g] e
  have "rfields r' = dict_set ''date'' date (dict_set ''loc'' (loc_of c) (rfields r1))"
    by simp
  with h l g show thesis by (rule that)
qed

lemma checklist_loc_field:
  assumes "rfields r' = dict_set ''date'' date (dict_set ''loc'' l fs)"
  shows "map_of (rfields r') ''loc'' = Some l"
  using assms by (simp add: map_of_dict_set)

lemma create_in_range:
  "checklist_create runtime checklist_record row_in_range = Inr created_in_range"
  by code_simp

lemma create_lon_200:
  "checklist_create runtime checklist_record row_lon_200 = Inr created_lon_200"
  by code_simp

text \<open>
  The part of the coordinate rule that holds on every row for which \<open>create\<close>
  returns: when longitude and latitude are finite floats in range, \<open>loc\<close> is the
  Point with coordinates [longitude, latitude]; when either is missing, or compares
  below or above its range, \<open>loc\<close> is null.
\<close>

lemma checklist_loc:
  assumes "provider_map r = MigrationChecklistType_map"
    and "header_row r = Some hdr"
    and "checklist_create E r row = Inr r'"
    and "row_coordinate E ''longitude'' hdr row = lon"
    and "row_coordinate E ''latitude'' hdr row = lat"
  shows "(\<forall>x y. lon = Some (Fin x) \<and> lat = Some (Fin y)
            \<and> - 90 \<le> y \<and> y \<le> 90 \<and> - 180 \<le> x \<and> x \<le> 180 \<longrightarrow>
          map_of (rfields r') ''loc'' =
            Some (PDict [(''type'', PStr ''Point''),
                         (''coordinates'', PList [PFloat (Fin x), PFloat (Fin y)])]))
    \<and> (lon = None \<or> lat = None
         \<or> (\<exists>x. lon = Some x \<and> (flt x (- 180) \<or> fgt x 180))
         \<or> (\<exists>y. lat = Some y \<and> (flt y (- 90) \<or> fgt y 90)) \<longrightarrow>
        map_of (rfields r') ''loc'' = Some PNone)"
proof -
  from assms(3) obtain hdr' r1 c date r3 where
    h: "header_row r = Some hdr'"
    and l: "row_loop (checklist_body E) hdr' 0 row (r, (None, None)) = Inr (r1, c)"
    and f: "rfields r' = dict_set ''date'' date (dict_set ''loc'' (loc_of c) (rfields r1))"
    by (rule checklist_create_Inr)
  from h assms(2) have hh: "hdr' = hdr" by simp
  from checklist_loop_coords [OF l assms(1)] assms(4,5) hh
  have c: "c = (lon, lat)"
    by (cases c) (auto split: option.splits)
  have loc: "map_of (rfields r') ''loc'' = Some (loc_of (lon, lat))"
    using checklist_loc_field [OF f] c by simp
  show ?thesis
    unfolding loc
    by (cases lon; cases lat)
      (auto simp: loc_of_def is_valid_coordinate_pair_def point_def)
qed

text \<open>
  C2, where the code departs from it: a longitude field \<open>nan\<close> is accepted by
  \<open>float\<close>, and NaN compares neither below -180 nor above 180, so
  \<open>is_valid_coordinate_pair\<close> accepts a coordinate that lies in no range: \<open>loc\<close> is
  not null, it is a Point that holds NaN, and the row goes to the valid batch.
\<close>

theorem nan_coordinate_stored:
  "map_sum id (\<lambda>r. map_of (rfields r) ''loc'')
     (checklist_create runtime checklist_record row_lon_nan) =
   Inr (Some (PDict [(''type'', PStr ''Point''),
                     (''coordinates'', PList [PFloat NaN, PFloat (Fin 40)])]))
   \<and> (case process_row runtime (1, row_lon_nan, MigrationChecklistType, checklist_header, 9) of
        Inr (Some (Some valid, None)) \<Rightarrow> True
      | _ \<Rightarrow> False)"
  by code_simp

text \<open>
  C10: on a checklist row for which \<open>create\<close> returns, when \<open>loc\<close> is null the
  computed \<open>date\<close> is null too, whatever the year, month and day are: \<open>gen_date\<close>
  validates the field mapping first, and \<open>loc\<close> is not nullable in the schema.
\<close>

theorem checklist_null_loc_null_date:
  assumes "checklist_create E r row = Inr r'"
    and "map_of (rfields r') ''loc'' = Some PNone"
  shows "map_of (rfields r') ''date'' = Some PNone"
proof -
  from assms(1) obtain hdr r1 c date r3 where
    g: "gen_date E (r1\<lparr>rfields := dict_set ''loc'' (loc_of c) (rfields r1)\<rparr>) = Inr (date, r3)"
    and f: "rfields r' = dict_set ''date'' date (dict_set ''loc'' (loc_of c) (rfields r1))"
    by (rule checklist_create_Inr)
  from checklist_loc_field [OF f] assms(2) have n: "loc_of c = PNone" by simp
  have "map_of (dict_set ''loc'' PNone (rfields r1)) ''loc'' = Some PNone"
    by (simp add: map_of_dict_set)
  then have m: "(''loc'', PNone) \<in> set (dict_set ''loc'' PNone (rfields r1))"
    by (rule map_of_SomeD)
  have s: "map_of checklist_schema ''loc'' =
      Some \<lparr>rtype = ''dict'', nullable = False, required = False, datetime_format = None,
            subschema = Some [(''type'', ''string''), (''coordinates'', ''list'')]\<rparr>"
    by (simp add: checklist_schema_def)
  have "validator_errors checklist_schema True (dict_set ''loc'' PNone (rfields r1)) \<noteq> []"
    by (rule not_nullable_errors [OF m s]) simp
  with g n have "date = PNone"
    by (auto dest: gen_date_invalid)
  with f show ?thesis by (simp add: map_of_dict_set)
qed

text \<open>The row with longitude 200: its year, month and day are valid.\<close>

theorem checklist_null_loc_null_date_witness:
  "map_of (rfields created_lon_200) ''date'' = Some PNone"
proof -
  have l: "map_of (rfields created_lon_200) ''loc'' = Some PNone"
    by (simp add: created_lon_200_def)
  show ?thesis by (rule checklist_null_loc_null_date [OF create_lon_200 l])
qed

subsection \<open>The computed date\<close>

lemma field_errors_unknown:
  assumes "map_of sch k = None"
  shows "field_errors sch True (k, v) = []"
  using assms by (simp add: field_errors_def)

lemma concat_errors_dict_set:
  assumes "map_of sch k = None"
  shows "concat (map (field_errors sch True) (dict_set k v doc)) =
         concat (map (field_errors sch True) doc)"
proof (induction doc)
  case Nil
  show ?case using assms by (simp add: field_errors_def)
next
  case (Cons p doc)
  show ?case
  proof (cases "fst p = k")
    case True
    then have "field_errors sch True p = []"
      using assms by (simp add: field_errors_def)
    with True show ?thesis using assms by (simp add: field_errors_def)
  next
    case False
    with Cons show ?thesis by simp
  qed
qed

lemma required_errors_dict_set:
  assumes "map_of sch k = None"
  shows "required_errors sch (dict_set k v doc) = required_errors sch doc"
proof -
  have ne: "\<And>kd. kd \<in> set sch \<Longrightarrow> fst kd \<noteq> k"
    using assms by (auto simp: map_of_eq_None_iff)
  have "filter (\<lambda>kd. required (snd kd) \<and> fst kd \<notin> fst ` set (dict_set k v doc)) sch =
        filter (\<lambda>kd. required (snd kd) \<and> fst kd \<notin> fst ` set doc) sch"
  proof (rule filter_cong [OF refl])
    fix kd assume "kd \<in> set sch"
    then have "fst kd \<noteq> k" by (rule ne)
    then show "(required (snd kd) \<and> fst kd \<notin> fst ` set (dict_set k v doc)) =
               (required (snd kd) \<and> fst kd \<notin> fst ` set doc)"
      by (simp add: keys_dict_set)
  qed
  then show ?thesis by (simp add: required_errors_def)
qed

lemma validator_errors_dict_set:
  assumes "map_of sch k = None"
  shows "validator_errors sch True (dict_set k v doc) = validator_errors sch True doc"
  by (simp add: validator_errors_def concat_errors_dict_set [OF assms]
      required_errors_dict_set [OF assms])

lemma valid_required:
  assumes "validator_errors sch au doc = []" and "(k, d) \<in> set sch" and "required d"
  shows "k \<in> fst ` set doc"
proof (rule ccontr)
  assume "k \<notin> fst ` set doc"
  with assms(2,3)
  have "(k, d) \<in> set (filter (\<lambda>kd. required (snd kd) \<and> fst kd \<notin> fst ` set doc) sch)"
    by simp
  then have "filter (\<lambda>kd. required (snd kd) \<and> fst kd \<notin> fst ` set doc) sch \<noteq> []"
    by (cases "filter (\<lambda>kd. required (snd kd) \<and> fst kd \<notin> fst ` set doc) sch") simp_all
  then have "required_errors sch doc \<noteq> []"
    by (simp add: required_errors_def)
  with assms(1) show False by (simp add: validator_errors_def)
qed

lemma valid_field:
  assumes "validator_errors sch au doc = []" and "(k, v) \<in> set doc"
    and "map_of sch k = Some d"
  shows "if v = PNone then nullable d else type_ok (rtype d) v"
proof -
  from assms(1,2) have "field_errors sch au (k, v) = []"
    by (auto simp: validator_errors_def)
  with assms(3) show ?thesis
    by (auto simp: field_errors_def split: if_splits)
qed

lemma schema_year: "map_of checklist_schema ''year'' = Some (mk_rule ''integer'' False True)"
  by (simp add: checklist_schema_def)

lemma schema_day: "map_of checklist_schema ''day'' = Some (mk_rule ''integer'' False True)"
  by (simp add: checklist_schema_def)

lemma valid_integer_field:
  assumes "validator_errors sch au doc = []"
    and s: "map_of sch k = Some (mk_rule ''integer'' False True)"
  shows "\<exists>v. map_of doc k = Some v \<and> isinstance_int v"
proof -
  from s have m: "(k, mk_rule ''integer'' False True) \<in> set sch"
    by (rule map_of_SomeD)
  have "k \<in> fst ` set doc"
    by (rule valid_required [OF assms(1) m]) (simp add: mk_rule_def)
  then have "map_of doc k \<noteq> None"
    by (simp add: map_of_eq_None_iff)
  then obtain v where v: "map_of doc k = Some v"
    by blast
  then have "(k, v) \<in> set doc" by (rule map_of_SomeD)
  from valid_field [OF assms(1) this s] have "isinstance_int v"
    by (cases "v = PNone") (simp_all add: mk_rule_def type_ok_def)
  with v show ?thesis by blast
qed

lemma int_of_isinstance:
  assumes "isinstance_int v"
  shows "\<exists>n. int_of E v = Inr n"
  using assms by (cases v) (auto simp: isinstance_int_def int_of_def)

lemma year_day_date_cases:
  assumes "isinstance_int y" and "isinstance_int d"
    and "int_of E y = Inr yi" and "int_of E d = Inr di"
  shows "year_day_date E y d =
     (if yi < - (2 ^ 31) \<or> 2 ^ 31 \<le> yi then Inl OverflowError
      else if yi < 1 \<or> 9999 < yi then Inl ValueError
      else if 999999999 < \<bar>di - 1\<bar> then Inl OverflowError
      else if days_before_year yi + 1 + (di - 1) < 1
              \<or> MAXORDINAL < days_before_year yi + 1 + (di - 1) then Inl OverflowError
      else Inr (days_before_year yi + 1 + (di - 1)))"
  unfolding year_day_date_def datetime_jan1_def timedelta_days_def datetime_add_def Let_def
  using assms by simp

lemma gen_date_valid:
  assumes "gen_date E r = Inr (date, r')"
    and "validator_errors checklist_schema True (rfields r) = []"
  shows "\<exists>y d yi di. map_of (rfields r) ''year'' = Some y \<and> map_of (rfields r) ''day'' = Some d
           \<and> int_of E y = Inr yi \<and> int_of E d = Inr di
           \<and> date = (if yi < 1 \<or> 9999 < yi then PNone
                      else PDatetime (days_before_year yi + 1 + (di - 1)))"
proof -
  from valid_integer_field [OF assms(2) schema_year] obtain y where
    y: "map_of (rfields r) ''year'' = Some y" "isinstance_int y" by auto
  from valid_integer_field [OF assms(2) schema_day] obtain d where
    d: "map_of (rfields r) ''day'' = Some d" "isinstance_int d" by auto
  from int_of_isinstance [OF y(2)] obtain yi where yi: "int_of E y = Inr yi" by blast
  from int_of_isinstance [OF d(2)] obtain di where di: "int_of E d = Inr di" by blast
  from y(1) have ne: "rfields r \<noteq> []" by auto
  note ydd = year_day_date_cases [OF y(2) d(2) yi di]
  from assms(1) have "date = (if yi < 1 \<or> 9999 < yi then PNone
                      else PDatetime (days_before_year yi + 1 + (di - 1)))"
    using ne assms(2) y(1) d(1)
    by (simp add: gen_date_def Let_def ydd split: if_splits)
  with y d yi di show ?thesis by blast
qed

text \<open>
  What \<open>gen_date\<close> computes on a row for which \<open>create\<close> returns: the date is null
  when the field mapping fails schema validation or the year is outside 1..9999, and
  otherwise it is 1 January of the year plus (day - 1) days.
\<close>

lemma checklist_date:
  assumes "checklist_create E r row = Inr r'"
  shows "(validator_errors checklist_schema True (rfields r') \<noteq> [] \<longrightarrow>
            map_of (rfields r') ''date'' = Some PNone)
    \<and> (validator_errors checklist_schema True (rfields r') = [] \<longrightarrow>
         (\<exists>y d yi di. map_of (rfields r') ''year'' = Some y
            \<and> map_of (rfields r') ''day'' = Some d
            \<and> int_of E y = Inr yi \<and> int_of E d = Inr di
            \<and> map_of (rfields r') ''date'' =
                Some (if yi < 1 \<or> 9999 < yi then PNone
                      else PDatetime (days_before_year yi + 1 + (di - 1)))))"
proof -
  from assms obtain hdr r1 c date r3 where
    g: "gen_date E (r1\<lparr>rfields := dict_set ''loc'' (loc_of c) (rfields r1)\<rparr>) = Inr (date, r3)"
    and f: "rfields r' = dict_set ''date'' date (dict_set ''loc'' (loc_of c) (rfields r1))"
    by (rule checklist_create_Inr)
  let ?doc = "dict_set ''loc'' (loc_of c) (rfields r1)"
  have u: "map_of checklist_schema ''date'' = None"
    by (simp add: checklist_schema_def)
  have ve: "validator_errors checklist_schema True (rfields r') =
            validator_errors checklist_schema True ?doc"
    unfolding f by (rule validator_errors_dict_set [OF u])
  have dt: "map_of (rfields r') ''date'' = Some date"
    unfolding f by (simp add: map_of_dict_set)
  have yr: "map_of (rfields r') ''year'' = map_of ?doc ''year''"
    and dy: "map_of (rfields r') ''day'' = map_of ?doc ''day''"
    unfolding f by (simp_all add: map_of_dict_set)
  show ?thesis
  proof (intro conjI impI)
    assume "validator_errors checklist_schema True (rfields r') \<noteq> []"
    with ve have "validator_errors checklist_schema True
        (rfields (r1\<lparr>rfields := ?doc\<rparr>)) \<noteq> []" by simp
    from gen_date_invalid [OF g this] dt
    show "map_of (rfields r') ''date'' = Some PNone" by simp
  next
    assume "validator_errors checklist_schema True (rfields r') = []"
    with ve have "validator_errors checklist_schema True
        (rfields (r1\<lparr>rfields := ?doc\<rparr>)) = []" by simp
    from gen_date_valid [OF g this] dt yr dy
    show "\<exists>y d yi di. map_of (rfields r') ''year'' = Some y
            \<and> map_of (rfields r') ''day'' = Some d
            \<and> int_of E y = Inr yi \<and> int_of E d = Inr di
            \<and> map_of (rfields r') ''date'' =
                Some (if yi < 1 \<or> 9999 < yi then PNone
                      else PDatetime (days_before_year yi + 1 + (di - 1)))"
      by simp
  qed
qed

text \<open>
  For year 2021 and day 400 the computed date is therefore not null: it is the 35th
  day of 2022 (4 February 2022).
\<close>

lemma date_rolls_into_next_year:
  "map_sum id (\<lambda>r. map_of (rfields r) ''date'')
     (checklist_create runtime checklist_record row_in_range) = Inr (Some (PDatetime 738190))
   \<and> 738190 = days_before_year 2022 + 35"
  by (simp add: create_in_range created_in_range_def days_before_year_def)

text \<open>
  C3, where the code departs from it: year 9999 and day 400 do not combine to a
  calendar date, and the sum \<open>datetime(9999, 1, 1) + timedelta(days=399)\<close> raises
  OverflowError, which the \<open>except ValueError\<close> of \<open>gen_date\<close> does not catch: no date
  is stored, and the exception leaves \<open>create\<close> and \<open>process_row\<close>.
\<close>

theorem date_overflow_escapes:
  "checklist_create runtime checklist_record row_year_9999 = Inl OverflowError
   \<and> process_row runtime (1, row_year_9999, MigrationChecklistType, checklist_header, 9)
       = Inl OverflowError"
  by code_simp

subsection \<open>Totality of the row loops\<close>

lemma could_be_int_str: "could_be_int E (PStr f) = (py_int E f \<noteq> None)"
  by (simp add: could_be_int_def isinstance_int_def split: option.splits)

lemma int_of_str:
  "int_of E (PStr f) = (case py_int E f of Some n \<Rightarrow> Inr n | None \<Rightarrow> Inl ValueError)"
  by (simp add: int_of_def)

lemma could_be_number_str: "could_be_number E (PStr f) = (py_float E f \<noteq> None)"
  by (simp add: could_be_number_def isinstance_int_def isinstance_float_def split: option.splits)

lemma parse_boolean_str: "\<exists>b. parse_boolean E (PStr f) = Inr b"
  by (auto simp: parse_boolean_def could_be_int_str int_of_str split: option.splits)

lemma no_datetime_lookup:
  assumes "no_datetime sch" and "map_of sch h = Some d"
  shows "lower (rtype d) \<noteq> ''datetime''"
proof -
  from assms(2) have "(h, d) \<in> set sch" by (rule map_of_SomeD)
  with assms(1) show ?thesis by (auto simp: no_datetime_def list_all_iff)
qed

lemma set_field_str:
  assumes "no_datetime sch"
  shows "\<exists>fs'. set_field_by_schema E sch h (PStr f) fs = Inr fs'
           \<and> fst ` set fs \<subseteq> fst ` set fs' \<and> (typed sch h \<longrightarrow> h \<in> fst ` set fs')"
proof (cases "map_of sch h")
  case None
  then show ?thesis
    by (simp add: set_field_by_schema_def DISABLE_SCHEMA_MATCH_def typed_def)
next
  case (Some d)
  note nd = no_datetime_lookup [OF assms Some]
  obtain b where b: "parse_boolean E (PStr f) = Inr b"
    using parse_boolean_str by blast
  show ?thesis
    using Some nd b
    by (auto simp: set_field_by_schema_def typed_def Let_def keys_dict_set could_be_int_str
        int_of_str could_be_number_str could_be_float_str float_of_str
        split: option.splits)
qed

lemma row_loop_total:
  assumes step: "\<And>s u f. I s \<Longrightarrow> \<exists>s'. body s u f = Inr s' \<and> I s'"
    and "I s"
  shows "(pos + length row \<le> length hdr \<longrightarrow> (\<exists>s'. row_loop body hdr pos row s = Inr s' \<and> I s'))
       \<and> ((\<exists>s'. row_loop body hdr pos row s = Inr s' \<and> I s')
            \<or> row_loop body hdr pos row s = Inl IndexError)"
  using assms(2)
proof (induction row arbitrary: pos s)
  case Nil
  then show ?case by simp
next
  case (Cons f row)
  show ?case
  proof (cases "pos < length hdr")
    case False
    then show ?thesis by simp
  next
    case True
    from step [OF Cons.prems, of "hdr ! pos" f] obtain s1 where
      s1: "body s (hdr ! pos) f = Inr s1" "I s1" by blast
    from Cons.IH [OF s1(2), of "pos + 1"] True s1(1)
    show ?thesis by simp
  qed
qed

lemma no_datetime_schemas:
  "no_datetime taxonomy_schema" "no_datetime checklist_schema" "no_datetime core_schema"
  by code_simp+

lemma taxonomy_body_total:
  assumes "plain_map (provider_map r)"
  shows "\<exists>r'. taxonomy_body E r u f = Inr r' \<and> provider_map r' = provider_map r"
proof -
  note mh = map_header_plain [OF assms, of u]
  obtain fs' where "set_field_by_schema E taxonomy_schema (lower u) (PStr f) (rfields r) = Inr fs'"
    using set_field_str [OF no_datetime_schemas(1)] by blast
  then show ?thesis
    by (auto simp: taxonomy_body_def mh)
qed

lemma core_body_total:
  assumes "plain_map (provider_map r)"
  shows "\<exists>r'. core_body E r u f = Inr r' \<and> provider_map r' = provider_map r"
proof -
  note mh = map_header_plain [OF assms, of u]
  obtain fs' where "set_field_by_schema E core_schema (lower u) (PStr f) (rfields r) = Inr fs'"
    using set_field_str [OF no_datetime_schemas(3)] by blast
  then show ?thesis
    by (auto simp: core_body_def mh Let_def could_be_number_str float_of_str split: option.splits)
qed

lemma checklist_body_total:
  assumes "plain_map (provider_map r)"
  shows "\<exists>r' c'. checklist_body E (r, c) u f = Inr (r', c') \<and> provider_map r' = provider_map r"
proof -
  note mh = map_header_plain [OF assms, of u]
  obtain fs' where
    "set_field_by_schema E checklist_schema (lower u) (PStr f) (rfields r) = Inr fs'"
    using set_field_str [OF no_datetime_schemas(2)] by blast
  then show ?thesis
    by (auto simp: checklist_body_def mh Let_def could_be_int_str int_of_str
        could_be_float_str float_of_str split: option.splits)
qed

lemma taxonomy_loop:
  assumes "plain_map (provider_map r)"
  shows "(pos + length row \<le> length hdr \<longrightarrow>
            (\<exists>r'. row_loop (taxonomy_body E) hdr pos row r = Inr r'))
       \<and> ((\<exists>r'. row_loop (taxonomy_body E) hdr pos row r = Inr r')
            \<or> row_loop (taxonomy_body E) hdr pos row r = Inl IndexError)"
proof -
  have step: "\<And>s u f. plain_map (provider_map s) \<Longrightarrow>
      \<exists>s'. taxonomy_body E s u f = Inr s' \<and> plain_map (provider_map s')"
    using taxonomy_body_total by metis
  from row_loop_total [of "\<lambda>s. plain_map (provider_map s)" "taxonomy_body E", OF step assms]
  show ?thesis by blast
qed

lemma core_loop:
  assumes "plain_map (provider_map r)"
  shows "(pos + length row \<le> length hdr \<longrightarrow>
            (\<exists>r'. row_loop (core_body E) hdr pos row r = Inr r'))
       \<and> ((\<exists>r'. row_loop (core_body E) hdr pos row r = Inr r')
            \<or> row_loop (core_body E) hdr pos row r = Inl IndexError)"
proof -
  have step: "\<And>s u f. plain_map (provider_map s) \<Longrightarrow>
      \<exists>s'. core_body E s u f = Inr s' \<and> plain_map (provider_map s')"
    using core_body_total by metis
  from row_loop_total [of "\<lambda>s. plain_map (provider_map s)" "core_body E", OF step assms]
  show ?thesis by blast
qed

lemma checklist_loop:
  assumes "plain_map (provider_map (fst s))"
  shows "(pos + length row \<le> length hdr \<longrightarrow>
            (\<exists>s'. row_loop (checklist_body E) hdr pos row s = Inr s'))
       \<and> ((\<exists>s'. row_loop (checklist_body E) hdr pos row s = Inr s')
            \<or> row_loop (checklist_body E) hdr pos row s = Inl IndexError)"
proof -
  have step: "\<exists>s'. checklist_body E s u f = Inr s' \<and> plain_map (provider_map (fst s'))"
    if "plain_map (provider_map (fst s))" for s u f
  proof -
    obtain r c where s: "s = (r, c)" by (cases s)
    with that have "plain_map (provider_map r)" by simp
    from checklist_body_total [OF this, of E c u f] this s show ?thesis by auto
  qed
  from row_loop_total [of "\<lambda>s. plain_map (provider_map (fst s))" "checklist_body E", OF step assms]
  show ?thesis by blast
qed

lemma gen_date_errors:
  "(\<exists>res. gen_date E r = Inr res) \<or> gen_date E r = Inl OverflowError"
proof (cases "rfields r = [] \<or> validator_errors checklist_schema True (rfields r) \<noteq> []")
  case True
  then show ?thesis by (auto simp: gen_date_def Let_def)
next
  case False
  then have v: "validator_errors checklist_schema True (rfields r) = []"
    and ne: "rfields r \<noteq> []" by auto
  from valid_integer_field [OF v schema_year] obtain y where
    y: "map_of (rfields r) ''year'' = Some y" "isinstance_int y" by auto
  from valid_integer_field [OF v schema_day] obtain d where
    d: "map_of (rfields r) ''day'' = Some d" "isinstance_int d" by auto
  from int_of_isinstance [OF y(2)] obtain yi where yi: "int_of E y = Inr yi" by blast
  from int_of_isinstance [OF d(2)] obtain di where di: "int_of E d = Inr di" by blast
  note ydd = year_day_date_cases [OF y(2) d(2) yi di]
  show ?thesis
    using ne v y(1) d(1)
    by (simp add: gen_date_def Let_def ydd)
qed

subsection \<open>Length checks\<close>

lemma checklist_create_errors:
  assumes a: "provider_map rk = MigrationChecklistType_map \<and> header_row rk = Some hdr"
  shows "(length row \<le> length hdr \<longrightarrow>
            (\<exists>r'. checklist_create E rk row = Inr r')
            \<or> checklist_create E rk row = Inl OverflowError)
       \<and> ((\<exists>r'. checklist_create E rk row = Inr r')
            \<or> checklist_create E rk row = Inl OverflowError
            \<or> checklist_create E rk row = Inl IndexError)"
proof -
  let ?loop = "row_loop (checklist_body E) hdr 0 row (rk, (None, None))"
  have pl: "plain_map (provider_map (fst (rk, (None :: pyfloat option, None :: pyfloat option))))"
    using a plain_checklist by simp
  note l = checklist_loop [OF pl, of 0 row hdr E]
  have res: "(\<exists>r'. checklist_create E rk row = Inr r')
      \<or> checklist_create E rk row = Inl OverflowError"
    if "\<exists>s'. ?loop = Inr s'"
  proof -
    from that obtain r1 c where s: "?loop = Inr (r1, c)" by auto
    let ?r2 = "r1\<lparr>rfields := dict_set ''loc'' (loc_of c) (rfields r1)\<rparr>"
    from gen_date_errors [of E ?r2] show ?thesis
    proof
      assume "\<exists>res. gen_date E ?r2 = Inr res"
      then obtain date r3 where "gen_date E ?r2 = Inr (date, r3)" by auto
      with a s show ?thesis
        by (simp add: checklist_create_def loc_of_def Let_def)
    next
      assume "gen_date E ?r2 = Inl OverflowError"
      with a s show ?thesis
        by (simp add: checklist_create_def loc_of_def Let_def)
    qed
  qed
  show ?thesis
  proof (cases "\<exists>s'. ?loop = Inr s'")
    case True
    from res [OF True] show ?thesis by blast
  next
    case False
    with l have i: "?loop = Inl IndexError" and "\<not> length row \<le> length hdr" by auto
    with a have "checklist_create E rk row = Inl IndexError"
      by (simp add: checklist_create_def)
    with \<open>\<not> length row \<le> length hdr\<close> show ?thesis by simp
  qed
qed

text \<open>
  What holds of the length rules. Taxonomy: \<open>create\<close> raises the length-mismatch
  error exactly when the row and the header differ in length. Migration-Core and
  Migration-Checklist: \<open>create\<close> makes no length check and never raises the
  length-mismatch error; on a row no longer than the header the loop over the fields
  completes.
\<close>

lemma length_checks:
  "(provider_map rt = TaxonomyType_map \<and> header_row rt = Some hdr \<longrightarrow>
      (taxonomy_create E rt row = Inl InvalidRecordLength \<longleftrightarrow> length row \<noteq> length hdr))
   \<and> (provider_map rc = MigrationCoreType_map \<and> header_row rc = Some hdr \<longrightarrow>
        core_create E rc row \<noteq> Inl InvalidRecordLength
        \<and> (length row \<le> length hdr \<longrightarrow> (\<exists>r'. core_create E rc row = Inr r')))
   \<and> (provider_map rk = MigrationChecklistType_map \<and> header_row rk = Some hdr \<longrightarrow>
        checklist_create E rk row \<noteq> Inl InvalidRecordLength
        \<and> (length row \<le> length hdr \<longrightarrow>
              (\<exists>r'. checklist_create E rk row = Inr r')
              \<or> checklist_create E rk row = Inl OverflowError))"
proof (intro conjI impI)
  assume a: "provider_map rt = TaxonomyType_map \<and> header_row rt = Some hdr"
  then have pl: "plain_map (provider_map rt)" using plain_taxonomy by simp
  from taxonomy_loop [OF pl, of 0 row hdr E]
  have "(\<exists>r'. row_loop (taxonomy_body E) hdr 0 row rt = Inr r')
      \<or> row_loop (taxonomy_body E) hdr 0 row rt = Inl IndexError" by blast
  then have n: "row_loop (taxonomy_body E) hdr 0 row rt \<noteq> Inl InvalidRecordLength" by auto
  show "(taxonomy_create E rt row = Inl InvalidRecordLength) = (length row \<noteq> length hdr)"
  proof (cases "length hdr = length row")
    case True
    with a n show ?thesis by (simp add: taxonomy_create_def)
  next
    case False
    with a show ?thesis by (auto simp: taxonomy_create_def)
  qed
next
  assume a: "provider_map rc = MigrationCoreType_map \<and> header_row rc = Some hdr"
  then have pl: "plain_map (provider_map rc)" using plain_core by simp
  from core_loop [OF pl, of 0 row hdr E]
  have "(\<exists>r'. row_loop (core_body E) hdr 0 row rc = Inr r')
      \<or> row_loop (core_body E) hdr 0 row rc = Inl IndexError" by blast
  then have "row_loop (core_body E) hdr 0 row rc \<noteq> Inl InvalidRecordLength" by auto
  with a show "core_create E rc row \<noteq> Inl InvalidRecordLength"
    by (simp add: core_create_def)
next
  assume a: "provider_map rc = MigrationCoreType_map \<and> header_row rc = Some hdr"
    and le: "length row \<le> length hdr"
  then have pl: "plain_map (provider_map rc)" using plain_core by simp
  from core_loop [OF pl, of 0 row hdr E] le
  have "\<exists>r'. row_loop (core_body E) hdr 0 row rc = Inr r'" by simp
  with a show "\<exists>r'. core_create E rc row = Inr r'"
    by (simp add: core_create_def)
next
  assume a: "provider_map rk = MigrationChecklistType_map \<and> header_row rk = Some hdr"
  from checklist_create_errors [OF a, of row E]
  show "checklist_create E rk row \<noteq> Inl InvalidRecordLength" by auto
next
  assume a: "provider_map rk = MigrationChecklistType_map \<and> header_row rk = Some hdr"
    and le: "length row \<le> length hdr"
  from checklist_create_errors [OF a, of row E] le
  show "(\<exists>r'. checklist_create E rk row = Inr r') \<or> checklist_create E rk row = Inl OverflowError"
    by simp
qed

text \<open>
  C6, where the code departs from it: on a row longer than the header, \<open>create\<close> of
  both migration records reads \<open>self.header_row[position]\<close> past the end of the header
  and raises IndexError, which \<open>process_row\<close> does not catch. The docstring of both
  methods announces the length-mismatch error for such a row, and the taxonomy record
  raises it.
\<close>

theorem long_row_raises_index_error:
  "core_create runtime (new_record (Some [''loc_id'']) MigrationCoreType_map 1) [''a'', ''b'']
     = Inl IndexError
   \<and> checklist_create runtime (new_record (Some [''loc_id'']) MigrationChecklistType_map 1)
       [''a'', ''b''] = Inl IndexError
   \<and> process_row runtime (1, [''a'', ''b''], MigrationCoreType, [''loc_id''], 9)
       = Inl IndexError"
  by code_simp

subsection \<open>The fields a row populates\<close>

lemma row_loop_keys:
  assumes step: "\<And>s u f s'. I s \<Longrightarrow> body s u f = Inr s' \<Longrightarrow>
      I s' \<and> K s \<subseteq> K s' \<and> (\<forall>k. key u = Some k \<longrightarrow> k \<in> K s')"
    and "I s" and "row_loop body hdr pos row s = Inr s'"
  shows "I s' \<and> K s \<subseteq> K s'
       \<and> (\<forall>i < length row. \<forall>k. key (hdr ! (pos + i)) = Some k \<longrightarrow> k \<in> K s')"
  using assms(2,3)
proof (induction row arbitrary: pos s)
  case Nil
  then show ?case by simp
next
  case (Cons f row)
  from Cons.prems(2) have lt: "pos < length hdr" by (simp split: if_splits)
  with Cons.prems(2) obtain s1 where
    b: "body s (hdr ! pos) f = Inr s1"
    and rest: "row_loop body hdr (pos + 1) row s1 = Inr s'"
    by (auto split: sum.splits)
  note st = step [OF Cons.prems(1) b]
  from st have i1: "I s1" by simp
  note ih = Cons.IH [OF i1 rest]
  have "\<forall>k. key (hdr ! (pos + i)) = Some k \<longrightarrow> k \<in> K s'" if "i < length (f # row)" for i
  proof (cases i)
    case 0
    with st ih show ?thesis by auto
  next
    case (Suc j)
    with that have "j < length row" by simp
    with ih Suc show ?thesis by simp
  qed
  with st ih show ?case by blast
qed


lemma checklist_body_unmapped:
  assumes "provider_map r = MigrationChecklistType_map"
    and "lower u \<notin> fst ` set MigrationChecklistType_map"
  shows "checklist_body E (r, c) u f =
     Inr (case py_int E f of
            Some v \<Rightarrow> (if v > 0
                       then (r\<lparr>rfields := dict_set (sanitize_key u) (PInt v) (rfields r)\<rparr>, c)
                       else (r, c))
          | None \<Rightarrow> (r, c))"
proof -
  have pl: "plain_map (provider_map r)" using assms(1) plain_checklist by simp
  show ?thesis
    using assms
    by (simp add: checklist_body_def map_header_plain [OF pl] Let_def could_be_int_str int_of_str
        split: option.splits)
qed

lemma core_typed:
  "list_all (\<lambda>kv. fst kv = ''sampling_event_id'' \<or> typed core_schema (fst kv))
     MigrationCoreType_map"
  by code_simp

lemma checklist_typed:
  "list_all (\<lambda>kv. fst kv \<in> set [''sampling_event_id'', ''longitude'', ''latitude'']
               \<or> typed checklist_schema (fst kv)) MigrationChecklistType_map"
  by code_simp


lemma checklist_body_keys:
  assumes "provider_map r = MigrationChecklistType_map"
    and "checklist_body E (r, c) u f = Inr (r', c')"
  shows "provider_map r' = MigrationChecklistType_map
       \<and> fst ` set (rfields r) \<subseteq> fst ` set (rfields r')
       \<and> (lower u \<in> fst ` set MigrationChecklistType_map
                     - {''sampling_event_id'', ''longitude'', ''latitude''} \<longrightarrow>
            lower u \<in> fst ` set (rfields r'))"
proof (cases "lower u \<in> fst ` set MigrationChecklistType_map")
  case False
  from checklist_body_unmapped [OF assms(1) False, of E c f] assms(2)
  have "r' = r \<or> (\<exists>v. r' = r\<lparr>rfields := dict_set (sanitize_key u) (PInt v) (rfields r)\<rparr>)"
    by (auto split: option.splits if_splits)
  then show ?thesis
    using assms(1) False
    by (elim disjE exE) (simp_all add: keys_dict_set subset_insertI)
next
  case True
  have pl: "plain_map (provider_map r)" using assms(1) plain_checklist by simp
  note k = plain_key [OF pl, of "lower u"]
  obtain fs' where
    fs: "set_field_by_schema E checklist_schema (lower u) (PStr f) (rfields r) = Inr fs'"
    "fst ` set (rfields r) \<subseteq> fst ` set fs'"
    "typed checklist_schema (lower u) \<longrightarrow> lower u \<in> fst ` set fs'"
    using set_field_str [OF no_datetime_schemas(2)] by blast
  from True obtain v where "(lower u, v) \<in> set MigrationChecklistType_map" by auto
  with checklist_typed
  have ty: "lower u \<in> set [''sampling_event_id'', ''longitude'', ''latitude'']
      \<or> typed checklist_schema (lower u)"
    by (force simp: list_all_iff)
  from True assms k fs(1)
  have "(lower u \<in> set [''sampling_event_id'', ''longitude'', ''latitude'']
          \<and> (r' = r \<or> r' = r\<lparr>rec_id := PStr f\<rparr>))
      \<or> r' = r\<lparr>rfields := fs'\<rparr>"
    by (auto simp: checklist_body_def map_header_plain [OF pl] Let_def float_of_str
        could_be_float_str split: if_splits option.splits)
  then show ?thesis
    using fs(2,3) ty assms(1) True by (elim disjE conjE) simp_all
qed

subsection \<open>Unmapped columns\<close>





subsection \<open>A longitude out of range\<close>

lemma invalid_record_well_formed:
  "invalid_validate (InvalidRecord E (PDict errs) (PStr name) (PInt n))"
  by (simp add: InvalidRecord_eq invalid_validate_def validator_errors_def field_errors_def
      required_errors_def invalid_record_schema_def mk_rule_def type_ok_def isinstance_int_def)

lemma schema_loc:
  "map_of checklist_schema ''loc'' =
      Some \<lparr>rtype = ''dict'', nullable = False, required = False, datetime_format = None,
            subschema = Some [(''type'', ''string''), (''coordinates'', ''list'')]\<rparr>"
  by (simp add: checklist_schema_def)

lemma null_loc_invalid:
  assumes "map_of (rfields r) ''loc'' = Some PNone"
  shows "\<not> fst (record_validate MigrationChecklistRecord r)"
proof -
  from assms have m: "(''loc'', PNone) \<in> set (rfields r)" by (rule map_of_SomeD)
  have "validator_errors checklist_schema True (rfields r) \<noteq> []"
    by (rule not_nullable_errors [OF m schema_loc]) simp
  then show ?thesis
    by (simp add: record_validate_def validate_def Let_def)
qed

lemma invalid_row_routed:
  assumes "create E (record_class ptype) (new_record (Some hdr) (type_map ptype) n) row = Inr r'"
    and "\<not> fst (record_validate (record_class ptype) r')"
    and "data_position ptype \<le> n" and "n \<noteq> eod" and "list_ex (\<lambda>f. f \<noteq> []) row"
  shows "\<exists>inv. process_row E (n, row, ptype, hdr, eod) = Inr (Some (None, Some inv))"
proof -
  obtain ok v where rv: "record_validate (record_class ptype) r' = (ok, v)"
    by (cases "record_validate (record_class ptype) r'")
  with assms(2) have ok: "ok = False" by simp
  note w = invalid_record_well_formed [of E "validation_errors E v"
      "class_name (record_class ptype)" "row_count v"]
  show ?thesis
    using assms(1,3,4,5) rv ok w
    by (simp add: process_row_def Let_def)
qed

text \<open>
  C4, as the code has it: a checklist row whose longitude lies above 180 (200, say),
  on which \<open>create\<close> returns, yields a record whose \<open>loc\<close> is null; \<open>loc\<close> is not
  nullable in the schema, so the record fails validation and the row is routed to the
  invalid batch as an invalid record, not to the valid one; every other mapped column
  of the row has its field in the record.
\<close>

theorem longitude_above_range_routed_invalid:
  assumes "row_coordinate E ''longitude'' hdr row = Some lon" and "fgt lon 180"
    and "checklist_create E (new_record (Some hdr) MigrationChecklistType_map n) row = Inr r'"
    and "data_position MigrationChecklistType \<le> n" and "n \<noteq> eod"
    and "list_ex (\<lambda>f. f \<noteq> []) row"
  shows "map_of (rfields r') ''loc'' = Some PNone
     \<and> \<not> fst (record_validate MigrationChecklistRecord r')
     \<and> (\<exists>inv. process_row E (n, row, MigrationChecklistType, hdr, eod)
                = Inr (Some (None, Some inv)))
     \<and> (\<forall>i < length row.
          lower (hdr ! i) \<in> fst ` set MigrationChecklistType_map
                              - {''sampling_event_id'', ''longitude'', ''latitude''} \<longrightarrow>
          lower (hdr ! i) \<in> fst ` set (rfields r'))"
proof -
  let ?r = "new_record (Some hdr) MigrationChecklistType_map n"
  have pm: "provider_map ?r = MigrationChecklistType_map"
    and hd: "header_row ?r = Some hdr"
    by (simp_all add: new_record_def)
  from checklist_loc [OF pm hd assms(3) assms(1) refl] assms(2)
  have loc: "map_of (rfields r') ''loc'' = Some PNone" by blast
  from null_loc_invalid [OF loc]
  have inv: "\<not> fst (record_validate MigrationChecklistRecord r')" .
  have cr: "create E (record_class MigrationChecklistType)
      (new_record (Some hdr) (type_map MigrationChecklistType) n) row = Inr r'"
    using assms(3) by (simp add: create_def MigrationChecklistType_def)
  have inv': "\<not> fst (record_validate (record_class MigrationChecklistType) r')"
    using inv by (simp add: MigrationChecklistType_def)
  note routed = invalid_row_routed [OF cr inv' assms(4,5,6)]
  from assms(3) obtain hdr' r1 c date r3 where
    h: "header_row ?r = Some hdr'"
    and l: "row_loop (checklist_body E) hdr' 0 row (?r, (None, None)) = Inr (r1, c)"
    and f: "rfields r' = dict_set ''date'' date (dict_set ''loc'' (loc_of c) (rfields r1))"
    by (rule checklist_create_Inr)
  from h hd have hh: "hdr' = hdr" by simp
  let ?key = "\<lambda>u. if lower u \<in> fst ` set MigrationChecklistType_map
                              - {''sampling_event_id'', ''longitude'', ''latitude''}
                  then Some (lower u) else None"
  have step: "\<And>s u f s'. provider_map (fst s) = MigrationChecklistType_map \<Longrightarrow>
      checklist_body E s u f = Inr s' \<Longrightarrow>
      provider_map (fst s') = MigrationChecklistType_map
      \<and> fst ` set (rfields (fst s)) \<subseteq> fst ` set (rfields (fst s'))
      \<and> (\<forall>k. ?key u = Some k \<longrightarrow> k \<in> fst ` set (rfields (fst s')))"
  proof -
    fix s :: "rstate \<times> coordinates" and u f s'
    assume p: "provider_map (fst s) = MigrationChecklistType_map"
      and b: "checklist_body E s u f = Inr s'"
    obtain r c where s: "s = (r, c)" by (cases s)
    obtain r2 c2 where s': "s' = (r2, c2)" by (cases s')
    from checklist_body_keys [of r E c u f r2 c2] p b s s'
    show "provider_map (fst s') = MigrationChecklistType_map
      \<and> fst ` set (rfields (fst s)) \<subseteq> fst ` set (rfields (fst s'))
      \<and> (\<forall>k. ?key u = Some k \<longrightarrow> k \<in> fst ` set (rfields (fst s')))"
      by simp
  qed
  have pm0: "provider_map (fst (?r, (None :: pyfloat option, None :: pyfloat option)))
      = MigrationChecklistType_map"
    by (simp add: new_record_def)
  from row_loop_keys [of "\<lambda>s. provider_map (fst s) = MigrationChecklistType_map"
      "checklist_body E" "\<lambda>s. fst ` set (rfields (fst s))" ?key, OF step pm0 l [unfolded hh]]
  have k1: "\<forall>i < length row. \<forall>k. ?key (hdr ! i) = Some k \<longrightarrow> k \<in> fst ` set (rfields r1)"
    by simp
  have sub: "fst ` set (rfields r1) \<subseteq> fst ` set (rfields r')"
    unfolding f by (auto simp: keys_dict_set)
  have pop: "\<forall>i < length row.
          lower (hdr ! i) \<in> fst ` set MigrationChecklistType_map
                              - {''sampling_event_id'', ''longitude'', ''latitude''} \<longrightarrow>
          lower (hdr ! i) \<in> fst ` set (rfields r')"
  proof (intro allI impI)
    fix i assume i: "i < length row"
      and m: "lower (hdr ! i) \<in> fst ` set MigrationChecklistType_map
                              - {''sampling_event_id'', ''longitude'', ''latitude''}"
    from k1 i m have "lower (hdr ! i) \<in> fst ` set (rfields r1)" by simp
    with sub show "lower (hdr ! i) \<in> fst ` set (rfields r')" by blast
  qed
  from loc inv routed pop show ?thesis by blast
qed


text \<open>The row with longitude 200 and latitude 40, and its column \<open>country\<close>.\<close>

theorem longitude_above_range_routed_invalid_witness:
  "map_of (rfields created_lon_200) ''loc'' = Some PNone
   \<and> \<not> fst (record_validate MigrationChecklistRecord created_lon_200)
   \<and> (\<exists>inv. process_row runtime (1, row_lon_200, MigrationChecklistType, checklist_header, 9)
              = Inr (Some (None, Some inv)))
   \<and> ''country'' \<in> fst ` set (rfields created_lon_200)"
proof -
  have lo: "row_coordinate runtime ''longitude'' checklist_header row_lon_200 = Some (Fin 200)"
    by code_simp
  have gt: "fgt (Fin 200) 180" by simp
  have cr: "checklist_create runtime
      (new_record (Some checklist_header) MigrationChecklistType_map 1) row_lon_200
      = Inr created_lon_200"
    using create_lon_200 by (simp add: checklist_record_def)
  have dp: "data_position MigrationChecklistType \<le> 1"
    by (simp add: MigrationChecklistType_def)
  have ne: "(1::int) \<noteq> 9" by simp
  have nb: "list_ex (\<lambda>f. f \<noteq> []) row_lon_200"
    by (simp add: row_lon_200_def)
  note t = longitude_above_range_routed_invalid [OF lo gt cr dp ne nb]
  have i: "6 < length row_lon_200" by (simp add: row_lon_200_def)
  have h: "lower (checklist_header ! 6) = ''country''" by code_simp
  have m: "''country'' \<in> fst ` set MigrationChecklistType_map
                              - {''sampling_event_id'', ''longitude'', ''latitude''}"
    by (simp add: MigrationChecklistType_map_def)
  from t have "\<forall>i < length row_lon_200.
          lower (checklist_header ! i) \<in> fst ` set MigrationChecklistType_map
                              - {''sampling_event_id'', ''longitude'', ''latitude''} \<longrightarrow>
          lower (checklist_header ! i) \<in> fst ` set (rfields created_lon_200)"
    by blast
  from this [rule_format, OF i] h m
  have c: "''country'' \<in> fst ` set (rfields created_lon_200)" by simp
  from t c show ?thesis by blast
qed

text \<open>
  C4 as stated fails: the row with longitude 200 and latitude 40, every other field
  valid, is not routed to the valid batch; \<open>process_row\<close> returns no valid record and
  an invalid record that reports the null \<open>loc\<close>.
\<close>

theorem longitude_200_counterexample:
  "process_row runtime (1, row_lon_200, MigrationChecklistType, checklist_header, 9) =
     Inr (Some (None,
       Some [(''Date'', PDatetime 736330),
             (''Errors'', PDict [(''loc'', PStr ''null value not allowed''),
                                 (''fields'', PStr ''{}'')]),
             (''RecordType'', PStr ''MigrationChecklistRecord''),
             (''RowNum'', PInt 1)]))"
  by code_simp

end
